theory Spec2Isabelle
  imports Complex_Main
begin

section \<open>Guest side: type descriptions and their decoding (routine\_server.py)\<close>

text \<open>
  A type description arrives as a dictionary with the one-letter keys \<open>f\<close> (fundamental),
  \<open>s\<close> (struct), \<open>p\<close> (pointer), \<open>t\<close> (type name), \<open>n\<close> (field name, for a struct
  field) and \<open>_fields_\<close> (the field descriptions of a struct, in declaration order).
  A key that a description does not carry is modelled by its empty value.
\<close>

datatype type_dict =
  TypeDict (key_f: bool) (key_s: bool) (key_p: bool) (key_t: string) (key_n: string)
    (key_fields: "type_dict list")

text \<open>
  The ctypes type objects the decoder produces. A class made by \<open>type(name, (Structure,), ...)\<close>
  is a new object every time: it carries the identity it was given at creation, next to its
  name and its \<open>_fields_\<close>.
\<close>

datatype ctype =
  Simple string
  | POINTER ctype
  | Structure nat string "(string \<times> ctype) list"

definition c_int :: ctype where
  "c_int = Simple ''c_int''"

datatype error =
  AttributeError string
  | ValueError string
  | TimeoutError string
  | OSError string
  | EOFError
  | OtherError string

text \<open>A log line: the format string and the arguments of \<open>%\<close>.\<close>

datatype log_arg =
  Str string
  | Types "ctype list"
  | Fields "(string \<times> ctype) list"
  | Num real

datatype log_entry =
  Out string "log_arg list"
  | Err string "log_arg list"

text \<open>
  What all routine objects of one guest interpreter share: the log (every routine takes it
  from its DLL object) and the supply of identities for newly created classes.
\<close>

record guest =
  guest_log :: "log_entry list"
  type_objects :: nat

text \<open>
  One \<open>routine_server_class\<close> object. \<open>handler_argtypes\<close> and \<open>handler_restype\<close> are the
  attributes of the ctypes function pointer \<open>self.handler\<close>; \<open>argtypes\<close> and
  \<open>restype\<close> are the descriptions kept on the object itself (absent until first set).
\<close>

record routine_server =
  name :: string
  parent_dll :: string
  datatypes_dict :: "string \<rightharpoonup> ctype"
  argtypes :: "type_dict list option"
  restype :: "type_dict option"
  handler_argtypes :: "ctype list option"
  handler_restype :: "ctype option"

type_synonym 'a outcome = "(error + 'a) \<times> guest \<times> routine_server"

text \<open>
  What \<open>__init__\<close> leaves behind when the routine is found in the DLL: an empty table of
  custom datatypes, and the function pointer as ctypes hands it out (no argtypes, restype
  \<open>c_int\<close>). When the routine is not found, \<open>__init__\<close> raises and there is no object.
  (The two log calls of \<open>__init__\<close> end in a dangling \<open>%\<close> in the source; they are read
  as the plain lines they print.)
\<close>

definition routine_server_init :: "string \<Rightarrow> string \<Rightarrow> guest \<Rightarrow> guest \<times> routine_server" where
  "routine_server_init parent_dll_name routine_name g =
     (g\<lparr>guest_log := guest_log g
          @ [Out ''[routine-server] Attaching to routine \"%s\" in DLL file \"%s\" ...''
               [Str routine_name, Str parent_dll_name],
             Out ''[routine-server] ... done.'' []]\<rparr>,
      \<lparr>name = routine_name, parent_dll = parent_dll_name, datatypes_dict = Map.empty,
       argtypes = None, restype = None,
       handler_argtypes = None, handler_restype = Some c_int\<rparr>)"

text \<open>
  \<open>getattr(ctypes, name)\<close>. The module's namespace \<open>ns\<close> is a parameter: \<open>ns name\<close> is the
  type object bound to \<open>name\<close>, and a name the module does not have raises AttributeError.
  The attribute the source names directly, \<open>ctypes.c_int\<close>, is the object \<open>c_int\<close>.
\<close>

definition getattr_ctypes :: "(string \<rightharpoonup> ctype) \<Rightarrow> string \<Rightarrow> error + ctype" where
  "getattr_ctypes ns nm = (case ns nm of None \<Rightarrow> Inl (AttributeError nm) | Some ty \<Rightarrow> Inr ty)"

definition unpack_type_fundamental_dict :: "(string \<rightharpoonup> ctype) \<Rightarrow> type_dict \<Rightarrow> error + ctype" where
  "unpack_type_fundamental_dict ns datatype_dict =
     (if key_p datatype_dict
      then (case getattr_ctypes ns (key_t datatype_dict) of
              Inl e \<Rightarrow> Inl e | Inr ty \<Rightarrow> Inr (POINTER ty))
      else getattr_ctypes ns (key_t datatype_dict))"

text \<open>
  The loop of \<open>__unpack_type_struct_dict_generator__\<close> over \<open>datatype_dict['_fields_']\<close>:
  \<open>flds\<close> (the source's \<open>fields\<close>) is the list built so far, \<open>tname\<close> is
  \<open>datatype_dict['t']\<close> (the name the error line prints). A struct field calls \<open>self.__unpack_struct_dict__\<close>, a method the
  class does not define, which raises AttributeError.
\<close>

fun generator_loop ::
  "(string \<rightharpoonup> ctype) \<Rightarrow> string \<Rightarrow> type_dict list \<Rightarrow> (string \<times> ctype) list \<Rightarrow> log_entry list
     \<Rightarrow> (error + (string \<times> ctype) list) \<times> log_entry list" where
  "generator_loop ns tname [] flds lg = (Inr flds, lg)"
| "generator_loop ns tname (field # rest) flds lg =
     (if key_f field then
        (case unpack_type_fundamental_dict ns field of
           Inl e \<Rightarrow> (Inl e, lg)
         | Inr ty \<Rightarrow> generator_loop ns tname rest (flds @ [(key_n field, ty)]) lg)
      else if key_s field then
        (Inl (AttributeError ''__unpack_struct_dict__''), lg)
      else
        generator_loop ns tname rest (flds @ [(key_n field, c_int)])
          (lg @ [Err ''[dll-server] ERROR: Unhandled datatype in struct: %s'' [Str tname]]))"

definition unpack_type_struct_dict_generator ::
  "(string \<rightharpoonup> ctype) \<Rightarrow> type_dict \<Rightarrow> guest \<times> routine_server \<Rightarrow> unit outcome" where
  "unpack_type_struct_dict_generator ns datatype_dict st =
     (case st of (g, self) \<Rightarrow>
        (case generator_loop ns (key_t datatype_dict) (key_fields datatype_dict) [] (guest_log g) of
           (Inl e, lg) \<Rightarrow> (Inl e, g\<lparr>guest_log := lg\<rparr>, self)
         | (Inr flds, lg) \<Rightarrow>
             (Inr (),
              g\<lparr>guest_log := lg @ [Out ''[dll-server] Generated struct type \"%s\" with fields %s''
                               [Str (key_t datatype_dict), Fields flds]],
                type_objects := Suc (type_objects g)\<rparr>,
              self\<lparr>datatypes_dict := (datatypes_dict self)
                      (key_t datatype_dict \<mapsto>
                         Structure (type_objects g) (key_t datatype_dict) flds)\<rparr>)))"

text \<open>
  \<open>self.datatypes[name]\<close>; the read cannot miss where the source makes it, the KeyError
  branch is written out all the same.
\<close>

definition datatypes_getitem :: "routine_server \<Rightarrow> string \<Rightarrow> error + ctype" where
  "datatypes_getitem self nm =
     (case datatypes_dict self nm of None \<Rightarrow> Inl (OtherError ''KeyError'') | Some ty \<Rightarrow> Inr ty)"

definition unpack_type_struct_dict ::
  "(string \<rightharpoonup> ctype) \<Rightarrow> type_dict \<Rightarrow> guest \<times> routine_server \<Rightarrow> ctype outcome" where
  "unpack_type_struct_dict ns datatype_dict st =
     (case (if datatypes_dict (snd st) (key_t datatype_dict) = None
            then unpack_type_struct_dict_generator ns datatype_dict st
            else (Inr (), st)) of
        (Inl e, st') \<Rightarrow> (Inl e, st')
      | (Inr u, g, self) \<Rightarrow>
          (if key_p datatype_dict
           then (case datatypes_getitem self (key_t datatype_dict) of
                   Inl e \<Rightarrow> (Inl e, g, self) | Inr ty \<Rightarrow> (Inr (POINTER ty), g, self))
           else (datatypes_getitem self (key_t datatype_dict), g, self)))"

definition unpack_type_dict ::
  "(string \<rightharpoonup> ctype) \<Rightarrow> type_dict \<Rightarrow> guest \<times> routine_server \<Rightarrow> ctype outcome" where
  "unpack_type_dict ns datatype_dict st =
     (if key_f datatype_dict then
        (unpack_type_fundamental_dict ns datatype_dict, st)
      else if key_s datatype_dict then
        unpack_type_struct_dict ns datatype_dict st
      else
        (case st of (g, self) \<Rightarrow>
           (Inr c_int,
            g\<lparr>guest_log := guest_log g @ [Err ''[routine-server] ERROR: Unhandled datatype: %s''
                                [Str (key_t datatype_dict)]]\<rparr>,
            self)))"

text \<open>
  The list comprehension \<open>[self.__unpack_type_dict__(arg_dict) for arg_dict in self.argtypes]\<close>:
  left to right, the first exception ends it.
\<close>

fun unpack_type_dicts ::
  "(string \<rightharpoonup> ctype) \<Rightarrow> type_dict list \<Rightarrow> guest \<times> routine_server \<Rightarrow> (ctype list) outcome" where
  "unpack_type_dicts ns [] st = (Inr [], st)"
| "unpack_type_dicts ns (arg_dict # rest) st =
     (case unpack_type_dict ns arg_dict st of
        (Inl e, st') \<Rightarrow> (Inl e, st')
      | (Inr ty, st') \<Rightarrow>
          (case unpack_type_dicts ns rest st' of
             (Inl e, st'') \<Rightarrow> (Inl e, st'')
           | (Inr tys, st'') \<Rightarrow> (Inr (ty # tys), st'')))"

definition guest_log_out :: "log_entry \<Rightarrow> guest \<times> routine_server \<Rightarrow> guest \<times> routine_server" where
  "guest_log_out entry st = (case st of (g, self) \<Rightarrow> (g\<lparr>guest_log := guest_log g @ [entry]\<rparr>, self))"

definition register_argtype_and_restype ::
  "(string \<rightharpoonup> ctype) \<Rightarrow> type_dict list \<Rightarrow> type_dict \<Rightarrow> guest \<times> routine_server \<Rightarrow> bool outcome" where
  "register_argtype_and_restype ns new_argtypes new_restype st =
     (case guest_log_out (Out ''[routine-server] Set argument and return value types for \"%s\" ...''
                      [Str (name (snd st))]) st of (g0, self0) \<Rightarrow>
      (case unpack_type_dicts ns new_argtypes (g0, self0\<lparr>argtypes := Some new_argtypes\<rparr>) of
         (Inl e, st1) \<Rightarrow> (Inl e, st1)
       | (Inr tys, g1, self1) \<Rightarrow>
           (case unpack_type_dict ns new_restype
                   (g1, self1\<lparr>handler_argtypes := Some tys, restype := Some new_restype\<rparr>) of
              (Inl e, st2) \<Rightarrow> (Inl e, st2)
            | (Inr ty, g2, self2) \<Rightarrow>
                (Inr True,
                 guest_log_out (Out ''[routine-server] ... done.'' [])
                   (guest_log_out (Out ''[routine-server] ... restype: %s ...'' [Types [ty]])
                      (guest_log_out (Out ''[routine-server] ... argtypes: %s ...'' [Types tys])
                         (g2, self2\<lparr>handler_restype := Some ty\<rparr>)))))))"


section \<open>Host side: the session client (session\_client.py)\<close>

text \<open>
  A library handle, the object \<open>dll_client_class(self, dll_name, dll_type, hash_id)\<close>
  makes: its identity and the constructor's arguments.
\<close>

datatype dll_client =
  DllClient (handle_id: nat) (handle_name: string) (handle_type: string) (handle_hash: string)

datatype pyval = PyInt int | PyBool bool | PyStr string

text \<open>
  What the session does to its surroundings, in order: log lines, sleeps, calls to the guest
  through \<open>rpc_client\<close>, and calls into the collaborators that start and stop the guest.
\<close>

datatype effect =
  LogOut string "log_arg list"
  | LogTerminate
  | Sleep real
  | RpcServerStart
  | RegisterTerminate
  | EnvEnsure
  | GetFreePort
  | InterpreterStart
  | InterpreterTerminate
  | RpcClientConnect
  | RpcLoadLibrary string string "(string \<times> pyval) list"
  | RpcTerminate
  | RpcServerTerminate

text \<open>The entries of the configuration \<open>self.p\<close> that the modelled methods read or write.\<close>

record config =
  pythonversion :: string
  arch :: string
  timeout_start :: real
  timeout_stop :: real
  port_socket_unix :: nat
  port_socket_wine :: nat

text \<open>
  The session object, with its surroundings in the last three fields: the clock that
  \<open>time.time()\<close> reads, the effects performed so far, and the supply of identities for
  new handle objects.
\<close>

record session_client =
  p :: config
  up :: bool
  server_up :: bool
  stage :: nat
  dll_dict :: "string \<rightharpoonup> dll_client"
  now :: real
  trace :: "effect list"
  objects :: nat

text \<open>
  What the surroundings answer. Every answer may depend on how many effects came before
  it. \<open>status_msg\<close> is the guest calling \<open>set_server_status\<close> on the reverse endpoint:
  a status that has arrived by the end of the effect with that index, if any.
  \<open>elapsed\<close> is by how much the reading of \<open>time.time()\<close> has moved on over the effect
  with that index; \<open>clock_step\<close> bounds it from below for a sleep (the clock does not
  stall: a sleep shows on it as at least \<open>1 / (clock_step + 1)\<close> seconds, however long
  it was asked to be). \<open>float_add\<close> and \<open>float_sub\<close> are \<open>+\<close> and \<open>-\<close> on floats, each
  with whatever rounding it has.
  The other fields say whether a collaborator raises, and what the guest returns.
\<close>

record environment =
  status_msg :: "nat \<Rightarrow> bool option"
  elapsed :: "nat \<Rightarrow> real"
  clock_step :: nat
  float_add :: "real \<Rightarrow> real \<Rightarrow> real"
  float_sub :: "real \<Rightarrow> real \<Rightarrow> real"
  free_port :: "nat \<Rightarrow> nat"
  env_ensure :: "nat \<Rightarrow> error option"
  interpreter_start :: "nat \<Rightarrow> error option"
  rpc_connect :: "nat \<Rightarrow> error option"
  rpc_load_library :: "nat \<Rightarrow> string \<Rightarrow> string \<Rightarrow> (string \<times> pyval) list \<Rightarrow> error + string"
  rpc_terminate :: "nat \<Rightarrow> error option"

type_synonym 'a result = "(error + 'a) \<times> session_client"

definition set_server_status :: "bool \<Rightarrow> session_client \<Rightarrow> session_client" where
  "set_server_status status self = self\<lparr>server_up := status\<rparr>"

definition deliver :: "environment \<Rightarrow> session_client \<Rightarrow> session_client" where
  "deliver E self =
     (case status_msg E (length (trace self)) of
        None \<Rightarrow> self
      | Some status \<Rightarrow> set_server_status status self)"

text \<open>
  Performing an effect records it and takes time; the reverse endpoint runs in its own
  thread and may deliver a status meanwhile. \<open>shown\<close> is by how much the clock has moved
  on over the effect: what the surroundings say, never backwards, and over a sleep by one
  clock step at least.
\<close>

definition shown :: "environment \<Rightarrow> nat \<Rightarrow> effect \<Rightarrow> real" where
  "shown E k eff =
     (case eff of
        Sleep _ \<Rightarrow> max (1 / real (Suc (clock_step E))) (elapsed E k)
      | _ \<Rightarrow> max 0 (elapsed E k))"

definition perform :: "environment \<Rightarrow> effect \<Rightarrow> session_client \<Rightarrow> session_client" where
  "perform E eff self =
     deliver E (self\<lparr>trace := trace self @ [eff],
                     now := now self + shown E (length (trace self)) eff\<rparr>)"

definition log_out :: "environment \<Rightarrow> string \<Rightarrow> log_arg list \<Rightarrow> session_client \<Rightarrow> session_client" where
  "log_out E fmt args self = perform E (LogOut fmt args) self"

text \<open>\<open>time.sleep(secs)\<close>; how long it shows on the clock is for the surroundings to say.\<close>

definition sleep :: "environment \<Rightarrow> real \<Rightarrow> session_client \<Rightarrow> session_client" where
  "sleep E secs self = perform E (Sleep secs) self"

text \<open>A call into a collaborator that may raise.\<close>

definition external ::
  "environment \<Rightarrow> effect \<Rightarrow> (nat \<Rightarrow> error option) \<Rightarrow> session_client \<Rightarrow> unit result" where
  "external E eff raises self =
     (case raises (length (trace self)) of
        Some e \<Rightarrow> (Inl e, perform E eff self)
      | None \<Rightarrow> (Inr (), perform E eff self))"

definition and_then ::
  "(session_client \<Rightarrow> 'a result) \<Rightarrow> ('a \<Rightarrow> session_client \<Rightarrow> 'b result) \<Rightarrow> session_client \<Rightarrow> 'b result" where
  "and_then m k self = (case m self of (Inl e, self') \<Rightarrow> (Inl e, self') | (Inr x, self') \<Rightarrow> k x self')"

definition STATUS_DICT :: "bool \<Rightarrow> string" where
  "STATUS_DICT status = (if status then ''up'' else ''down'')"

definition CONFIG_DICT :: "bool \<Rightarrow> config \<Rightarrow> real" where
  "CONFIG_DICT status = (if status then timeout_start else timeout_stop)"

text \<open>
  The loop of \<open>__wait_for_server_status_change__\<close>; \<open>deadline\<close> is
  \<open>started_waiting_at + timeout_after_seconds\<close>. Leaving by \<open>break\<close> and leaving by the
  loop condition both return the state reached.
\<close>

definition wait_for_seconds :: real where
  "wait_for_seconds = 1 / 100"

function wait_loop :: "environment \<Rightarrow> bool \<Rightarrow> real \<Rightarrow> session_client \<Rightarrow> session_client" where
  "wait_loop E target_status deadline self =
     (if target_status \<noteq> server_up self then
        (if now (sleep E wait_for_seconds self) \<ge> deadline
         then sleep E wait_for_seconds self
         else wait_loop E target_status deadline (sleep E wait_for_seconds self))
      else self)"
  by pat_completeness auto
termination
proof (relation "measure (\<lambda>(E, target_status, deadline, self).
                    nat \<lceil>(deadline - now self) * real (Suc (clock_step E))\<rceil>)")
  show "wf (measure (\<lambda>(E, target_status, deadline, self).
                    nat \<lceil>(deadline - now self) * real (Suc (clock_step E))\<rceil>))"
    by simp
next
  fix E :: environment and target_status :: bool and deadline :: real
    and self :: session_client
  let ?self' = "sleep E wait_for_seconds self"
  let ?N = "real (Suc (clock_step E))"
  assume "\<not> deadline \<le> now ?self'"
  then have pos: "0 < (deadline - now ?self') * ?N"
    by simp
  have "now self + 1 / ?N \<le> now ?self'"
    by (simp add: sleep_def perform_def deliver_def set_server_status_def shown_def
          split: option.splits)
  then have "1 \<le> (now ?self' - now self) * ?N"
    by (simp add: field_simps)
  then have "(deadline - now ?self') * ?N + 1 \<le> (deadline - now self) * ?N"
    by (simp add: algebra_simps)
  then have "\<lceil>(deadline - now ?self') * ?N + 1\<rceil> \<le> \<lceil>(deadline - now self) * ?N\<rceil>"
    by (rule ceiling_mono)
  then have "\<lceil>(deadline - now ?self') * ?N\<rceil> + 1 \<le> \<lceil>(deadline - now self) * ?N\<rceil>"
    by (simp only: ceiling_add_one)
  moreover from pos have "0 < \<lceil>(deadline - now ?self') * ?N\<rceil>"
    by (simp only: zero_less_ceiling)
  ultimately have "nat \<lceil>(deadline - now ?self') * ?N\<rceil> < nat \<lceil>(deadline - now self) * ?N\<rceil>"
    by linarith
  then show "((E, target_status, deadline, ?self'), (E, target_status, deadline, self))
             \<in> measure (\<lambda>(E, target_status, deadline, self).
                    nat \<lceil>(deadline - now self) * real (Suc (clock_step E))\<rceil>)"
    by simp
qed

declare wait_loop.simps [simp del]

definition wait_for_server_status_change :: "environment \<Rightarrow> bool \<Rightarrow> session_client \<Rightarrow> unit result" where
  "wait_for_server_status_change E target_status self =
     (if target_status = server_up self then (Inr (), self)
      else
        (let self1 = log_out E ''[session-client] Waiting for session-server to be %s ...''
                       [Str (STATUS_DICT target_status)] self;
             timeout_after_seconds = CONFIG_DICT target_status (p self1);
             started_waiting_at = now self1;
             self2 = wait_loop E target_status
                       (float_add E started_waiting_at timeout_after_seconds) self1
         in
           if target_status \<noteq> server_up self2 then
             (Inl (TimeoutError (if target_status then ''session server did not appear''
                                 else ''session server could not be stopped'')),
              log_out E ''[session-client] ... wait timed out (after %0.2f seconds).''
                [Num (float_sub E (now self2) started_waiting_at)] self2)
           else
             (Inr (),
              log_out E ''[session-client] ... session server is %s (after %0.2f seconds).''
                [Str (STATUS_DICT target_status), Num (float_sub E (now self2) started_waiting_at)]
                self2)))"

definition prepare_python_command :: "environment \<Rightarrow> session_client \<Rightarrow> session_client" where
  "prepare_python_command E self =
     (let port = free_port E (length (trace self));
          self1 = perform E GetFreePort self
      in self1\<lparr>p := (p self1)\<lparr>port_socket_wine := port\<rparr>\<rparr>)"

definition start_rpc_client :: "environment \<Rightarrow> session_client \<Rightarrow> unit result" where
  "start_rpc_client E self = external E RpcClientConnect (rpc_connect E) self"

definition init_stage_2 :: "environment \<Rightarrow> session_client \<Rightarrow> unit result" where
  "init_stage_2 E self =
     and_then (external E EnvEnsure (env_ensure E)) (\<lambda>_.
     and_then (\<lambda>self. (Inr (), prepare_python_command E self)) (\<lambda>_.
     and_then (external E InterpreterStart (interpreter_start E)) (\<lambda>_.
     and_then (wait_for_server_status_change E True) (\<lambda>_.
     and_then (start_rpc_client E) (\<lambda>_ self.
       (Inr (), log_out E ''[session-client] STARTED (STAGE 2).'' [] (self\<lparr>stage := 2\<rparr>)))))))
       (log_out E ''[session-client] STARTING (STAGE 2) ...'' [] self)"

text \<open>
  \<open>__init__\<close> and \<open>__init_stage_1__\<close>: \<open>parameter\<close> is the configuration as
  \<open>config_class\<close> has completed it, \<open>clock\<close> the time of day at construction.
\<close>

definition init_stage_1 :: "environment \<Rightarrow> config \<Rightarrow> bool \<Rightarrow> real \<Rightarrow> unit result" where
  "init_stage_1 E parameter force_stage_2 clock =
     (let self0 = \<lparr>p = parameter\<lparr>port_socket_unix := free_port E 0\<rparr>,
                    up = True, server_up = False, stage = 1, dll_dict = Map.empty,
                    now = clock, trace = [], objects = 0\<rparr>;
          self1 = perform E RpcServerStart (perform E GetFreePort self0);
          self2 = log_out E ''[session-client] Log socket port: %d.''
                    [Num (real (port_socket_unix (p self1)))]
                    (log_out E ''[session-client] Configured Wine-Python version is %s for %s.''
                       [Str (pythonversion (p self1)), Str (arch (p self1))]
                       (log_out E ''[session-client] STARTING (STAGE 1) ...'' [] self1));
          self3 = self2\<lparr>dll_dict := Map.empty, up := True, server_up := False, stage := 1\<rparr>;
          self4 = log_out E ''[session-client] STARTED (STAGE 1).'' []
                    (perform E RegisterTerminate self3)
      in if force_stage_2 then init_stage_2 E self4 else (Inr (), self4))"

text \<open>
  The three defaults \<open>load_library\<close> writes into \<open>dll_param\<close>; the dictionary is a list
  of pairs in insertion order.
\<close>

definition setdefault :: "string \<Rightarrow> pyval \<Rightarrow> (string \<times> pyval) list \<Rightarrow> (string \<times> pyval) list" where
  "setdefault k v d = (if map_of d k = None then d @ [(k, v)] else d)"

definition fix_dll_param :: "(string \<times> pyval) list \<Rightarrow> (string \<times> pyval) list" where
  "fix_dll_param dll_param =
     setdefault ''use_last_error'' (PyBool False)
       (setdefault ''use_errno'' (PyBool False)
          (setdefault ''mode'' (PyInt 0) dll_param))"

text \<open>\<open>except OSError\<close> also catches the subclass TimeoutError.\<close>

definition is_OSError :: "error \<Rightarrow> bool" where
  "is_OSError e = (case e of OSError _ \<Rightarrow> True | TimeoutError _ \<Rightarrow> True | _ \<Rightarrow> False)"

text \<open>
  \<open>load_library(self, dll_name, dll_type, dll_param={})\<close>. The defaults are written into the
  caller's dictionary (or into the shared default); the session keeps no reference to it,
  so the model passes the completed dictionary on to the guest and returns nothing of it.
  The checks come in the source's order: stage, table, convention.
\<close>

definition rpc_client_load_library ::
  "environment \<Rightarrow> string \<Rightarrow> string \<Rightarrow> (string \<times> pyval) list \<Rightarrow> session_client \<Rightarrow> string result" where
  "rpc_client_load_library E dll_name dll_type dll_param self =
     (rpc_load_library E (length (trace self)) dll_name dll_type dll_param,
      perform E (RpcLoadLibrary dll_name dll_type dll_param) self)"

definition load_library ::
  "environment \<Rightarrow> string \<Rightarrow> string \<Rightarrow> (string \<times> pyval) list \<Rightarrow> session_client \<Rightarrow> dll_client result" where
  "load_library E dll_name dll_type dll_param self =
     and_then (\<lambda>self. if stage self = 1 then init_stage_2 E self else (Inr (), self)) (\<lambda>_ self.
       (case dll_dict self dll_name of
          Some handle \<Rightarrow> (Inr handle, self)
        | None \<Rightarrow>
            if dll_type \<notin> set [''cdll'', ''windll'', ''oledll''] then
              (Inl (ValueError ''unknown dll type''), self)
            else
              (case rpc_client_load_library E dll_name dll_type (fix_dll_param dll_param)
                      (log_out E
                         ''[session-client] Attaching to DLL file \"%s\" with calling convention \"%s\" ...''
                         [Str dll_name, Str dll_type] self) of
                 (Inl e, self1) \<Rightarrow>
                   (Inl e, if is_OSError e then log_out E ''[session-client] ... failed!'' [] self1
                           else self1)
               | (Inr hash_id, self1) \<Rightarrow>
                   (let handle = DllClient (objects self1) dll_name dll_type hash_id;
                        self2 = log_out E ''[session-client] ... attached.'' []
                                  (self1\<lparr>dll_dict := (dll_dict self1)(dll_name \<mapsto> handle),
                                         objects := Suc (objects self1)\<rparr>)
                    in (case dll_dict self2 dll_name of
                          Some handle' \<Rightarrow> (Inr handle', self2)
                        | None \<Rightarrow> (Inl (OtherError ''KeyError''), self2))))))
       self"

text \<open>
  \<open>rpc_client.terminate()\<close> inside its \<open>try\<close>: an EOFError is logged and dropped, any
  other exception leaves \<open>terminate\<close>.
\<close>

definition rpc_client_terminate :: "environment \<Rightarrow> session_client \<Rightarrow> unit result" where
  "rpc_client_terminate E self =
     (case external E RpcTerminate (rpc_terminate E) self of
        (Inl EOFError, self1) \<Rightarrow> (Inr (), log_out E ''[session-client] Remote socket closed.'' [] self1)
      | (Inl e, self1) \<Rightarrow> (Inl e, self1)
      | (Inr u, self1) \<Rightarrow> (Inr u, self1))"

text \<open>
  \<open>terminate(self, signum=None, frame=None)\<close>; the two arguments, which a signal handler
  receives, are not used.
\<close>

definition terminate :: "environment \<Rightarrow> session_client \<Rightarrow> unit result" where
  "terminate E self =
     (if \<not> up self then (Inr (), self)
      else
        and_then
          (\<lambda>self. if stage self = 2 then
              and_then (rpc_client_terminate E) (\<lambda>_.
              and_then (wait_for_server_status_change E False) (\<lambda>_ self.
                (Inr (), perform E InterpreterTerminate self))) self
            else (Inr (), self))
          (\<lambda>_ self.
             (Inr (),
              (perform E LogTerminate
                 (log_out E ''[session-client] TERMINATED.'' []
                    (perform E RpcServerTerminate self)))\<lparr>up := False\<rparr>))
          (log_out E ''[session-client] TERMINATING ...'' [] self))"


section \<open>Example inputs\<close>

definition example_ns :: "string \<rightharpoonup> ctype" where
  "example_ns = [''c_int'' \<mapsto> Simple ''c_int'', ''c_double'' \<mapsto> Simple ''c_double'']"

definition example_guest :: guest where
  "example_guest = \<lparr>guest_log = [], type_objects = 0\<rparr>"

definition int_dict :: type_dict where
  "int_dict = TypeDict True False False ''c_int'' [] []"

definition double_dict :: type_dict where
  "double_dict = TypeDict True False False ''c_double'' [] []"

text \<open>A pointer to a pointer: neither fundamental nor struct.\<close>

definition pointer_pointer_dict :: type_dict where
  "pointer_pointer_dict = TypeDict False False True ''c_int'' ''pp'' []"

text \<open>\<open>struct Point { int x; int y; }\<close> and a second declaration under the same name.\<close>

definition point_int :: type_dict where
  "point_int = TypeDict False True False ''Point'' []
     [TypeDict True False False ''c_int'' ''x'' [], TypeDict True False False ''c_int'' ''y'' []]"

definition point_double :: type_dict where
  "point_double = TypeDict False True False ''Point'' []
     [TypeDict True False False ''c_double'' ''x'' [], TypeDict True False False ''c_double'' ''y'' [],
      TypeDict True False False ''c_double'' ''z'' []]"

text \<open>\<open>struct Segment { struct Point a; int n; }\<close>: a struct with a struct field.\<close>

definition segment_dict :: type_dict where
  "segment_dict = TypeDict False True False ''Segment'' []
     [TypeDict False True False ''Point'' ''a''
        [TypeDict True False False ''c_int'' ''x'' [], TypeDict True False False ''c_int'' ''y'' []],
      TypeDict True False False ''c_int'' ''n'' []]"

text \<open>A struct with a field that is a pointer to a pointer.\<close>

definition handle_dict :: type_dict where
  "handle_dict = TypeDict False True False ''Handle'' []
     [TypeDict True False False ''c_int'' ''id'' [], pointer_pointer_dict]"

text \<open>
  A routine of \<open>demo.dll\<close> right after \<open>__init__\<close>, and the same routine after it has
  decoded \<open>point_int\<close>.
\<close>

definition fresh_routine :: "guest \<times> routine_server" where
  "fresh_routine = routine_server_init ''demo.dll'' ''f'' example_guest"

definition point_routine :: "guest \<times> routine_server" where
  "point_routine = snd (unpack_type_struct_dict example_ns point_int fresh_routine)"

definition point_struct :: "nat \<Rightarrow> ctype" where
  "point_struct ident = Structure ident ''Point'' [(''x'', Simple ''c_int''), (''y'', Simple ''c_int'')]"

text \<open>A routine of \<open>demo.dll\<close> bound to \<open>int f(int)\<close>.\<close>

definition bound_routine :: "guest \<times> routine_server" where
  "bound_routine =
     snd (register_argtype_and_restype example_ns [int_dict] int_dict fresh_routine)"

text \<open>
  Surroundings in which no collaborator raises, the guest answers every \<open>load_library\<close>
  with the same hash, arithmetic is exact, and the clock shows 0.01 seconds for a sleep and
  nothing for any other effect: the guest reports itself up after every effect, down after
  every effect, or never reports anything.
\<close>

definition up_env :: environment where
  "up_env = \<lparr>status_msg = (\<lambda>_. Some True),
              elapsed = (\<lambda>_. 0), clock_step = 99, float_add = (+), float_sub = (-),
              free_port = (\<lambda>_. 50000),
              env_ensure = (\<lambda>_. None), interpreter_start = (\<lambda>_. None),
              rpc_connect = (\<lambda>_. None),
              rpc_load_library = (\<lambda>_ _ _ _. Inr ''4f2a''),
              rpc_terminate = (\<lambda>_. None)\<rparr>"

definition down_env :: environment where
  "down_env = up_env\<lparr>status_msg := (\<lambda>_. Some False)\<rparr>"

definition quiet_env :: environment where
  "quiet_env = up_env\<lparr>status_msg := (\<lambda>_. None)\<rparr>"

definition example_config :: config where
  "example_config = \<lparr>pythonversion = ''3.7.4'', arch = ''win32'',
                      timeout_start = 3 / 100, timeout_stop = 3 / 100,
                      port_socket_unix = 0, port_socket_wine = 0\<rparr>"

text \<open>A session that has just been constructed, and one constructed with its guest started.\<close>

definition fresh_session :: session_client where
  "fresh_session = snd (init_stage_1 quiet_env example_config False 0)"

definition started_session :: session_client where
  "started_session = snd (init_stage_1 up_env example_config True 0)"

text \<open>The started session after \<open>terminate\<close>, the guest having reported itself down.\<close>

definition terminated_session :: session_client where
  "terminated_session = snd (terminate down_env started_session)"

text \<open>The fresh session after it has loaded \<open>a.dll\<close>.\<close>

definition loaded_session :: session_client where
  "loaded_session = snd (load_library up_env ''a.dll'' ''cdll'' [] fresh_session)"

text \<open>
  A started session whose \<open>timeout_stop\<close> is 0, and surroundings in which the guest
  reports itself down two effects after that session was started (for a wait that begins
  there: not during the wait's first log line, but during its first sleep).
\<close>

definition impatient_config :: config where
  "impatient_config = example_config\<lparr>timeout_stop := 0\<rparr>"

definition impatient_session :: session_client where
  "impatient_session = snd (init_stage_1 up_env impatient_config True 0)"

definition late_env :: environment where
  "late_env = up_env\<lparr>status_msg := (\<lambda>k. if length (trace impatient_session) + 2 \<le> k
                                          then Some False else None)\<rparr>"


section \<open>Properties of the session client\<close>

text \<open>
  A session in stage 1 has loaded no library: the table is filled only by \<open>load_library\<close>,
  which brings the session to stage 2 first.
\<close>

definition session_inv :: "session_client \<Rightarrow> bool" where
  "session_inv self = (stage self \<noteq> 1 \<or> dll_dict self = Map.empty)"

text \<open>The guest calls of \<open>load_library\<close> for one name, and the sleeps, among the effects.\<close>

definition loads :: "string \<Rightarrow> effect list \<Rightarrow> nat" where
  "loads nm effs =
     length (filter (\<lambda>eff. case eff of RpcLoadLibrary nm' _ _ \<Rightarrow> nm' = nm | _ \<Rightarrow> False) effs)"

definition sleeps :: "effect list \<Rightarrow> real list" where
  "sleeps effs = List.map_filter (\<lambda>eff. case eff of Sleep secs \<Rightarrow> Some secs | _ \<Rightarrow> None) effs"

text \<open>
  For the wait: the message of its timeout error; the session after the wait's first log
  line and \<open>n\<close> polling sleeps of 0.01 seconds; and the deadline the wait compares the clock
  with, \<open>started_waiting_at + timeout_after_seconds\<close>.
\<close>

definition timeout_message :: "bool \<Rightarrow> string" where
  "timeout_message target_status =
     (if target_status then ''session server did not appear''
      else ''session server could not be stopped'')"

definition polled :: "environment \<Rightarrow> bool \<Rightarrow> session_client \<Rightarrow> nat \<Rightarrow> session_client" where
  "polled E target_status self n =
     ((sleep E wait_for_seconds) ^^ n)
       (log_out E ''[session-client] Waiting for session-server to be %s ...''
          [Str (STATUS_DICT target_status)] self)"

definition wait_deadline :: "environment \<Rightarrow> bool \<Rightarrow> session_client \<Rightarrow> real" where
  "wait_deadline E target_status self =
     float_add E (now (polled E target_status self 0)) (CONFIG_DICT target_status (p self))"

text \<open>
  A step of the session that leaves the library table, the flags, the timeouts and the
  supply of identities alone, and calls no \<open>load_library\<close> on the guest.
\<close>

definition quiet_step :: "session_client \<Rightarrow> session_client \<Rightarrow> bool" where
  "quiet_step self self' =
     (dll_dict self' = dll_dict self \<and> up self' = up self \<and> stage self' = stage self \<and>
      objects self' = objects self \<and>
      timeout_start (p self') = timeout_start (p self) \<and>
      timeout_stop (p self') = timeout_stop (p self) \<and>
      (\<forall>nm. loads nm (trace self') = loads nm (trace self)))"

section \<open>Properties of the decoder\<close>

text \<open>
  What one field of a description has become in the synthesized \<open>_fields_\<close> list: the
  entry carries the field's name, and the type the field decodes to.
\<close>

definition field_decoded :: "(string \<rightharpoonup> ctype) \<Rightarrow> type_dict \<Rightarrow> string \<times> ctype \<Rightarrow> bool" where
  "field_decoded ns field entry =
     (fst entry = key_n field \<and>
      (if key_f field then unpack_type_fundamental_dict ns field = Inr (snd entry)
       else \<not> key_s field \<and> snd entry = c_int))"

text \<open>
  Decoding only ever adds to a routine's table of datatypes: every other attribute of the
  routine object stays, and so does every entry the table already has.
\<close>

definition extends :: "routine_server \<Rightarrow> routine_server \<Rightarrow> bool" where
  "extends self self' =
     (self' = self\<lparr>datatypes_dict := datatypes_dict self'\<rparr> \<and>
      datatypes_dict self \<subseteq>\<^sub>m datatypes_dict self')"


text \<open>
  Two states of guest and routine that decode alike: the same supply of identities and the
  same table of datatypes. What a description decodes to depends on nothing else (not on
  the log, nor on the types bound so far).
\<close>

definition same_types :: "guest \<times> routine_server \<Rightarrow> guest \<times> routine_server \<Rightarrow> bool" where
  "same_types st st' =
     (type_objects (fst st) = type_objects (fst st') \<and>
      datatypes_dict (snd st) = datatypes_dict (snd st'))"

section \<open>The decoder: lemmas\<close>

lemma generator_loop_appends:
  "generator_loop ns tn fs acc lg = (Inr out, lg') \<Longrightarrow>
     \<exists>new. out = acc @ new \<and> list_all2 (field_decoded ns) fs new"
proof (induction fs arbitrary: acc lg)
  case Nil
  then show ?case by simp
next
  case (Cons field rest)
  show ?case
  proof (cases "key_f field")
    case True
    with Cons.prems obtain ty where ty: "unpack_type_fundamental_dict ns field = Inr ty"
      and rec: "generator_loop ns tn rest (acc @ [(key_n field, ty)]) lg = (Inr out, lg')"
      by (auto split: sum.splits)
    from Cons.IH [OF rec] obtain new where
      "out = (acc @ [(key_n field, ty)]) @ new" "list_all2 (field_decoded ns) rest new"
      by blast
    with True ty have "out = acc @ ((key_n field, ty) # new) \<and>
        list_all2 (field_decoded ns) (field # rest) ((key_n field, ty) # new)"
      by (simp add: field_decoded_def)
    then show ?thesis by blast
  next
    case False
    with Cons.prems have no_struct: "\<not> key_s field"
      and rec: "generator_loop ns tn rest (acc @ [(key_n field, c_int)])
         (lg @ [Err ''[dll-server] ERROR: Unhandled datatype in struct: %s'' [Str tn]])
           = (Inr out, lg')"
      by (auto split: if_splits)
    from Cons.IH [OF rec] obtain new where
      "out = (acc @ [(key_n field, c_int)]) @ new" "list_all2 (field_decoded ns) rest new"
      by blast
    with False no_struct have "out = acc @ ((key_n field, c_int) # new) \<and>
        list_all2 (field_decoded ns) (field # rest) ((key_n field, c_int) # new)"
      by (simp add: field_decoded_def)
    then show ?thesis by blast
  qed
qed

lemma generator_success:
  assumes "unpack_type_struct_dict_generator ns d (g, self) = (Inr u, g', self')"
  shows "\<exists>flds. list_all2 (field_decoded ns) (key_fields d) flds \<and>
           self' = self\<lparr>datatypes_dict := (datatypes_dict self)
                      (key_t d \<mapsto> Structure (type_objects g) (key_t d) flds)\<rparr> \<and>
           type_objects g' = Suc (type_objects g)"
proof -
  from assms obtain flds lg where
    loop: "generator_loop ns (key_t d) (key_fields d) [] (guest_log g) = (Inr flds, lg)"
    and self': "self' = self\<lparr>datatypes_dict := (datatypes_dict self)
                      (key_t d \<mapsto> Structure (type_objects g) (key_t d) flds)\<rparr>"
    and g': "type_objects g' = Suc (type_objects g)"
    by (auto simp: unpack_type_struct_dict_generator_def split: prod.splits sum.splits)
  from generator_loop_appends [OF loop] have "list_all2 (field_decoded ns) (key_fields d) flds"
    by simp
  with self' g' show ?thesis by blast
qed

lemma generator_failure:
  "unpack_type_struct_dict_generator ns d (g, self) = (Inl e, g', self') \<Longrightarrow>
     self' = self \<and> type_objects g' = type_objects g"
  by (auto simp: unpack_type_struct_dict_generator_def split: prod.splits sum.splits)

lemma struct_dict_memo:
  "datatypes_dict self (key_t d) = Some ty \<Longrightarrow>
     unpack_type_struct_dict ns d (g, self) = (Inr (if key_p d then POINTER ty else ty), g, self)"
  by (simp add: unpack_type_struct_dict_def datatypes_getitem_def)

lemma struct_dict_result:
  assumes "unpack_type_struct_dict ns d (g, self) = (Inr ty, g', self')"
  shows "\<exists>T. datatypes_dict self' (key_t d) = Some T \<and> ty = (if key_p d then POINTER T else T)"
  using assms
  by (auto simp: unpack_type_struct_dict_def datatypes_getitem_def
        split: if_splits prod.splits sum.splits option.splits)

lemma extends_refl: "extends self self"
  unfolding extends_def by simp

lemma extends_trans: "extends a b \<Longrightarrow> extends b c \<Longrightarrow> extends a c"
  unfolding extends_def
  by (metis map_le_trans routine_server.surjective routine_server.update_convs(3))

lemma extends_keeps:
  "extends self self' \<Longrightarrow> datatypes_dict self nm = Some ty \<Longrightarrow> datatypes_dict self' nm = Some ty"
  unfolding extends_def by (metis domI map_le_def)

lemma extends_binding:
  assumes "extends self self'"
  shows "handler_argtypes self' = handler_argtypes self"
    and "handler_restype self' = handler_restype self"
    and "argtypes self' = argtypes self"
    and "restype self' = restype self"
    and "name self' = name self"
proof -
  from assms have eq: "self' = self\<lparr>datatypes_dict := datatypes_dict self'\<rparr>"
    unfolding extends_def by simp
  show "handler_argtypes self' = handler_argtypes self" by (subst eq) simp
  show "handler_restype self' = handler_restype self" by (subst eq) simp
  show "argtypes self' = argtypes self" by (subst eq) simp
  show "restype self' = restype self" by (subst eq) simp
  show "name self' = name self" by (subst eq) simp
qed

lemma struct_dict_extends:
  assumes "unpack_type_struct_dict ns d (g, self) = (res, g', self')"
  shows "extends self self'"
proof (cases "datatypes_dict self (key_t d)")
  case (Some ty)
  from struct_dict_memo [OF Some, of ns g] assms show ?thesis by (simp add: extends_refl)
next
  case None
  obtain r1 g1 self1 where gen: "unpack_type_struct_dict_generator ns d (g, self) = (r1, g1, self1)"
    by (metis prod_cases3)
  show ?thesis
  proof (cases r1)
    case (Inl e)
    with gen generator_failure have "self1 = self" by blast
    with assms None gen Inl show ?thesis
      by (simp add: unpack_type_struct_dict_def extends_refl)
  next
    case (Inr u)
    with gen generator_success obtain flds where
      s1: "self1 = self\<lparr>datatypes_dict := (datatypes_dict self)
                      (key_t d \<mapsto> Structure (type_objects g) (key_t d) flds)\<rparr>"
      by blast
    from assms None gen Inr have "self' = self1"
      by (auto simp: unpack_type_struct_dict_def split: if_splits sum.splits)
    with s1 None show ?thesis
      unfolding extends_def by (auto simp: map_le_def)
  qed
qed

lemma unpack_type_dict_extends:
  "unpack_type_dict ns d (g, self) = (res, g', self') \<Longrightarrow> extends self self'"
  by (auto simp: unpack_type_dict_def extends_refl struct_dict_extends split: if_splits)

lemma unpack_type_dicts_extends:
  "unpack_type_dicts ns ds (g, self) = (res, g', self') \<Longrightarrow> extends self self'"
proof (induction ds arbitrary: g self res g' self')
  case Nil
  then show ?case by (simp add: extends_refl)
next
  case (Cons d ds)
  obtain r1 g1 self1 where h: "unpack_type_dict ns d (g, self) = (r1, g1, self1)"
    by (metis prod_cases3)
  then have e1: "extends self self1" by (rule unpack_type_dict_extends)
  show ?case
  proof (cases r1)
    case (Inl e)
    with Cons.prems h e1 show ?thesis by simp
  next
    case (Inr ty)
    obtain r2 g2 self2 where t: "unpack_type_dicts ns ds (g1, self1) = (r2, g2, self2)"
      by (metis prod_cases3)
    from Cons.IH [OF t] have "extends self1 self2" .
    moreover from Cons.prems h Inr t have "self' = self2" by (auto split: sum.splits)
    ultimately show ?thesis using e1 extends_trans by blast
  qed
qed

lemma unpack_type_dicts_length:
  "unpack_type_dicts ns ds st = (Inr tys, st') \<Longrightarrow> length tys = length ds"
  by (induction ds arbitrary: st tys st') (auto split: prod.splits sum.splits)


lemma generator_loop_log:
  "fst (generator_loop ns tn fs acc lg) = fst (generator_loop ns tn fs acc lg')"
  by (induction fs arbitrary: acc lg lg') (auto split: sum.splits)

lemma generator_same:
  assumes "same_types st st'"
  shows "fst (unpack_type_struct_dict_generator ns d st)
           = fst (unpack_type_struct_dict_generator ns d st')
       \<and> same_types (snd (unpack_type_struct_dict_generator ns d st))
                    (snd (unpack_type_struct_dict_generator ns d st'))"
proof -
  obtain g self g' self' where st: "st = (g, self)" "st' = (g', self')"
    by (metis surj_pair)
  obtain r lg where loop: "generator_loop ns (key_t d) (key_fields d) [] (guest_log g) = (r, lg)"
    by (metis surj_pair)
  obtain r' lg' where loop': "generator_loop ns (key_t d) (key_fields d) [] (guest_log g') = (r', lg')"
    by (metis surj_pair)
  from generator_loop_log [of ns "key_t d" "key_fields d" "[]" "guest_log g" "guest_log g'"]
    loop loop' have "r' = r" by simp
  with assms st loop loop' show ?thesis
    by (cases r) (simp_all add: unpack_type_struct_dict_generator_def same_types_def)
qed

lemma struct_dict_same:
  assumes "same_types st st'"
  shows "fst (unpack_type_struct_dict ns d st) = fst (unpack_type_struct_dict ns d st')
       \<and> same_types (snd (unpack_type_struct_dict ns d st)) (snd (unpack_type_struct_dict ns d st'))"
proof (cases "datatypes_dict (snd st) (key_t d)")
  case (Some T)
  with assms have "datatypes_dict (snd st') (key_t d) = Some T" by (simp add: same_types_def)
  with Some assms struct_dict_memo [of "snd st" d T ns "fst st"]
    struct_dict_memo [of "snd st'" d T ns "fst st'"]
  show ?thesis by simp
next
  case None
  with assms have None': "datatypes_dict (snd st') (key_t d) = None" by (simp add: same_types_def)
  obtain r g1 s1 where gen: "unpack_type_struct_dict_generator ns d st = (r, g1, s1)"
    by (metis prod_cases3)
  obtain r' g1' s1' where gen': "unpack_type_struct_dict_generator ns d st' = (r', g1', s1')"
    by (metis prod_cases3)
  from generator_same [OF assms, of ns d] gen gen'
  have eq: "r' = r" "type_objects g1 = type_objects g1'" "datatypes_dict s1 = datatypes_dict s1'"
    by (simp_all add: same_types_def)
  with None None' gen gen' show ?thesis
    by (cases r)
      (auto simp: unpack_type_struct_dict_def same_types_def datatypes_getitem_def
         split: option.splits)
qed

lemma unpack_type_dict_same:
  assumes "same_types st st'"
  shows "fst (unpack_type_dict ns d st) = fst (unpack_type_dict ns d st')
       \<and> same_types (snd (unpack_type_dict ns d st)) (snd (unpack_type_dict ns d st'))"
  using assms struct_dict_same [OF assms, of ns d]
  by (cases st, cases st') (simp add: unpack_type_dict_def same_types_def)

lemma unpack_type_dicts_same:
  assumes "same_types st st'"
  shows "fst (unpack_type_dicts ns ds st) = fst (unpack_type_dicts ns ds st')
       \<and> same_types (snd (unpack_type_dicts ns ds st)) (snd (unpack_type_dicts ns ds st'))"
  using assms
proof (induction ds arbitrary: st st')
  case Nil
  then show ?case by simp
next
  case (Cons d ds)
  obtain r st1 where u: "unpack_type_dict ns d st = (r, st1)" by (metis surj_pair)
  obtain r' st1' where u': "unpack_type_dict ns d st' = (r', st1')" by (metis surj_pair)
  from unpack_type_dict_same [OF Cons.prems, of ns d] u u'
  have eq: "r' = r" and rel: "same_types st1 st1'" by simp_all
  show ?case
  proof (cases r)
    case (Inl e)
    with u u' eq rel show ?thesis by simp
  next
    case (Inr ty)
    obtain rs st2 where t: "unpack_type_dicts ns ds st1 = (rs, st2)" by (metis surj_pair)
    obtain rs' st2' where t': "unpack_type_dicts ns ds st1' = (rs', st2')" by (metis surj_pair)
    from Cons.IH [OF rel] t t' have "rs' = rs" "same_types st2 st2'" by simp_all
    with u u' eq Inr t t' show ?thesis by (cases rs) simp_all
  qed
qed

lemmas decoder_defs =
  unpack_type_dict_def unpack_type_struct_dict_def unpack_type_struct_dict_generator_def
  unpack_type_fundamental_dict_def getattr_ctypes_def datatypes_getitem_def
  routine_server_init_def guest_log_out_def register_argtype_and_restype_def

lemmas example_defs =
  example_ns_def example_guest_def int_dict_def double_dict_def pointer_pointer_dict_def
  point_int_def point_double_def segment_dict_def handle_dict_def c_int_def
  fresh_routine_def point_routine_def bound_routine_def point_struct_def

section \<open>The decoder: what the specification says of it\<close>

subsection \<open>Descriptions that are neither fundamental nor struct\<close>

text \<open>
  C1. The specification wants a description whose kind is neither fundamental nor struct to
  be refused with \<open>type_unsupported\<close>, as an argument or return type and as a struct
  field. The decoder writes an error line to the log and goes on with \<open>c_int\<close> in both
  places: for every such description \<open>__unpack_type_dict__\<close> returns \<open>c_int\<close>, and the
  generator's loop enters the field with type \<open>c_int\<close>. The last two conjuncts run the
  decoder on a pointer to a pointer, alone and as the second field of a struct.
\<close>

theorem unhandled_datatype_decodes_to_c_int:
  "unpack_type_dict ns (TypeDict False False pp tn fn fs) (g, self) =
     (Inr c_int,
      g\<lparr>guest_log := guest_log g
           @ [Err ''[routine-server] ERROR: Unhandled datatype: %s'' [Str tn]]\<rparr>,
      self)
   \<and> generator_loop ns sn [TypeDict False False pp tn fn fs] [] lg =
     (Inr [(fn, c_int)],
      lg @ [Err ''[dll-server] ERROR: Unhandled datatype in struct: %s'' [Str sn]])
   \<and> fst (unpack_type_dict example_ns pointer_pointer_dict fresh_routine) = Inr (Simple ''c_int'')
   \<and> fst (unpack_type_dict example_ns handle_dict fresh_routine)
      = Inr (Structure 0 ''Handle'' [(''id'', Simple ''c_int''), (''pp'', Simple ''c_int'')])"
  by (simp add: decoder_defs example_defs)

subsection \<open>A struct name declared twice\<close>

theorem struct_redeclaration_counterexample:
  "key_t point_double = key_t point_int \<and> key_fields point_double \<noteq> key_fields point_int \<and>
   fst (unpack_type_struct_dict example_ns point_int fresh_routine) = Inr (point_struct 0) \<and>
   fst (unpack_type_struct_dict example_ns point_double
          (snd (unpack_type_struct_dict example_ns point_int fresh_routine)))
     = Inr (point_struct 0)"
  by (simp add: decoder_defs example_defs)

text \<open>
  C2, as the code has it. Once a routine's table holds a type under a struct name, decoding
  any description with that name succeeds, whatever its field list: the result is the type
  in the table (behind a pointer when the description asks for one), and neither the table
  nor the log changes. No conflict is looked for.
\<close>

theorem struct_redeclaration_returns_memoized:
  assumes "datatypes_dict self (key_t d) = Some T"
  shows "unpack_type_struct_dict ns d (g, self) =
           (Inr (if key_p d then POINTER T else T), g, self)"
  using assms by (simp add: unpack_type_struct_dict_def datatypes_getitem_def)

theorem struct_redeclaration_returns_memoized_witness:
  "datatypes_dict (snd point_routine) (key_t point_double) = Some (point_struct 0) \<and>
   unpack_type_struct_dict example_ns point_double (fst point_routine, snd point_routine) =
     (Inr (point_struct 0), fst point_routine, snd point_routine)"
proof -
  have h: "datatypes_dict (snd point_routine) (key_t point_double) = Some (point_struct 0)"
    by (simp add: decoder_defs example_defs)
  from struct_redeclaration_returns_memoized [OF h, of example_ns "fst point_routine"] h
  show ?thesis by (simp add: point_double_def)
qed

subsection \<open>Re-binding argument and return types\<close>

theorem rebinding_counterexample:
  "handler_argtypes (snd bound_routine) = Some [Simple ''c_int''] \<and>
   handler_restype (snd bound_routine) = Some (Simple ''c_int'') \<and>
   fst (register_argtype_and_restype example_ns [double_dict] segment_dict bound_routine)
     = Inl (AttributeError ''__unpack_struct_dict__'') \<and>
   handler_argtypes (snd (snd
      (register_argtype_and_restype example_ns [double_dict] segment_dict bound_routine)))
     = Some [Simple ''c_double''] \<and>
   handler_restype (snd (snd
      (register_argtype_and_restype example_ns [double_dict] segment_dict bound_routine)))
     = Some (Simple ''c_int'')"
  by (simp add: decoder_defs example_defs)

text \<open>
  C4, as the code has it. \<open>register_argtype_and_restype\<close> binds in sequence, and nothing
  is rolled back. Let \<open>args_res\<close> be what the new argument descriptions decode to in the
  state the call starts from, and \<open>ret_res\<close> what the new return description decodes to
  after them. If an argument type does not decode, the call fails with that error and the
  function pointer keeps the argument types and the return type it had. If the argument
  types decode and the return type does not, the call fails with that error, and the
  function pointer carries the decoded new argument types with the return type it had
  before. If both decode, the call returns True and the function pointer carries the
  decoded new argument types and the decoded new return type. The routine object's own
  \<open>argtypes\<close> is the new list in every case, and its table of datatypes is the one the
  decoding left.
\<close>

theorem register_rebinds_in_sequence:
  assumes "register_argtype_and_restype ns new_argtypes new_restype (g, self) = (res, g', self')"
    and "unpack_type_dicts ns new_argtypes (g, self) = (args_res, g_a, self_a)"
    and "unpack_type_dict ns new_restype (g_a, self_a) = (ret_res, g_r, self_r)"
  shows "argtypes self' = Some new_argtypes \<and>
    (case args_res of
       Inl e \<Rightarrow>
         res = Inl e \<and> handler_argtypes self' = handler_argtypes self \<and>
         handler_restype self' = handler_restype self \<and> restype self' = restype self \<and>
         datatypes_dict self' = datatypes_dict self_a
     | Inr tys \<Rightarrow>
         handler_argtypes self' = Some tys \<and> restype self' = Some new_restype \<and>
         datatypes_dict self' = datatypes_dict self_r \<and>
         (case ret_res of
            Inl e \<Rightarrow> res = Inl e \<and> handler_restype self' = handler_restype self
          | Inr ty \<Rightarrow> res = Inr True \<and> handler_restype self' = Some ty))"
proof -
  define g0 where "g0 = g\<lparr>guest_log := guest_log g
      @ [Out ''[routine-server] Set argument and return value types for \"%s\" ...''
           [Str (name self)]]\<rparr>"
  define self0 where "self0 = self\<lparr>argtypes := Some new_argtypes\<rparr>"
  obtain r1 g1 self1 where args: "unpack_type_dicts ns new_argtypes (g0, self0) = (r1, g1, self1)"
    by (metis prod_cases3)
  have "same_types (g0, self0) (g, self)" by (simp add: same_types_def g0_def self0_def)
  from unpack_type_dicts_same [OF this, of ns new_argtypes] args assms(2)
  have r1: "r1 = args_res" and rel1: "same_types (g1, self1) (g_a, self_a)" by simp_all
  from unpack_type_dicts_extends [OF args] have e1: "extends self0 self1" .
  note b1 = extends_binding [OF e1]
  show ?thesis
  proof (cases r1)
    case (Inl e)
    with assms(1) args have "res = Inl e" "self' = self1"
      by (simp_all add: register_argtype_and_restype_def guest_log_out_def g0_def self0_def)
    with b1 r1 [symmetric] Inl rel1 show ?thesis by (simp add: self0_def same_types_def)
  next
    case (Inr tys)
    define self1' where
      "self1' = self1\<lparr>handler_argtypes := Some tys, restype := Some new_restype\<rparr>"
    obtain r2 g2 self2 where ret: "unpack_type_dict ns new_restype (g1, self1') = (r2, g2, self2)"
      by (metis prod_cases3)
    from rel1 have "same_types (g1, self1') (g_a, self_a)"
      by (simp add: same_types_def self1'_def)
    from unpack_type_dict_same [OF this, of ns new_restype] ret assms(3)
    have r2: "r2 = ret_res" and rel2: "same_types (g2, self2) (g_r, self_r)" by simp_all
    from unpack_type_dict_extends [OF ret] have e2: "extends self1' self2" .
    note b2 = extends_binding [OF e2]
    show ?thesis
    proof (cases r2)
      case (Inl e)
      with assms(1) args ret Inr have "res = Inl e" "self' = self2"
        by (simp_all add: register_argtype_and_restype_def guest_log_out_def g0_def self0_def
              self1'_def)
      with b1 b2 r1 [symmetric] r2 [symmetric] Inr Inl rel2 show ?thesis
        by (simp add: self0_def self1'_def same_types_def)
    next
      case inr2: (Inr ty)
      with assms(1) args ret Inr have "res = Inr True" "self' = self2\<lparr>handler_restype := Some ty\<rparr>"
        by (simp_all add: register_argtype_and_restype_def guest_log_out_def g0_def self0_def
              self1'_def)
      with b1 b2 r1 [symmetric] r2 [symmetric] Inr inr2 rel2 show ?thesis
        by (simp add: self0_def self1'_def same_types_def)
    qed
  qed
qed


theorem register_rebinds_in_sequence_witness:
  "register_argtype_and_restype example_ns [double_dict] segment_dict
     (fst bound_routine, snd bound_routine)
   = (Inl (AttributeError ''__unpack_struct_dict__''),
      fst (snd (register_argtype_and_restype example_ns [double_dict] segment_dict bound_routine)),
      snd (snd (register_argtype_and_restype example_ns [double_dict] segment_dict bound_routine)))
   \<and> handler_argtypes
        (snd (snd (register_argtype_and_restype example_ns [double_dict] segment_dict bound_routine)))
      = Some [Simple ''c_double'']
   \<and> handler_restype
        (snd (snd (register_argtype_and_restype example_ns [double_dict] segment_dict bound_routine)))
      = handler_restype (snd bound_routine)
   \<and> argtypes
        (snd (snd (register_argtype_and_restype example_ns [double_dict] segment_dict bound_routine)))
      = Some [double_dict]"
proof -
  let ?reg = "register_argtype_and_restype example_ns [double_dict] segment_dict bound_routine"
  let ?args = "unpack_type_dicts example_ns [double_dict] (fst bound_routine, snd bound_routine)"
  let ?ret = "unpack_type_dict example_ns segment_dict (fst (snd ?args), snd (snd ?args))"
  have h1: "register_argtype_and_restype example_ns [double_dict] segment_dict
     (fst bound_routine, snd bound_routine)
   = (Inl (AttributeError ''__unpack_struct_dict__''), fst (snd ?reg), snd (snd ?reg))"
    by (simp add: decoder_defs example_defs)
  have h2: "?args = (Inr [Simple ''c_double''], fst (snd ?args), snd (snd ?args))"
    by (simp add: decoder_defs example_defs)
  have h3: "?ret = (Inl (AttributeError ''__unpack_struct_dict__''), fst (snd ?ret), snd (snd ?ret))"
    by (simp add: decoder_defs example_defs)
  from register_rebinds_in_sequence [OF h1 h2 h3]
  have "handler_argtypes (snd (snd ?reg)) = Some [Simple ''c_double'']
      \<and> handler_restype (snd (snd ?reg)) = handler_restype (snd bound_routine)
      \<and> argtypes (snd (snd ?reg)) = Some [double_dict]"
    by simp
  with h1 show ?thesis by (intro conjI) blast+
qed


subsection \<open>One type per struct name\<close>

theorem struct_memo_counterexample:
  "fst (unpack_type_struct_dict example_ns point_int
          (routine_server_init ''demo.dll'' ''f'' example_guest)) = Inr (point_struct 0) \<and>
   fst (unpack_type_struct_dict example_ns point_int
          (routine_server_init ''demo.dll'' ''h'' (fst point_routine))) = Inr (point_struct 1) \<and>
   point_struct 0 \<noteq> point_struct 1"
  by (simp add: decoder_defs example_defs)

text \<open>
  C5, as the code has it. The table of synthesized types belongs to the routine object.
  Within one routine: when a struct description has been decoded, then after any further
  decoding by that routine, every description with the same struct name decodes, without
  changing anything, to the very type object the first one gave (each behind a pointer or
  not, as its own pointer flag says). Two routine objects of one session each synthesize
  their own type for the same name.
\<close>

theorem struct_memoized_per_routine:
  assumes "unpack_type_struct_dict ns d1 (g, self) = (Inr ty1, g1, self1)"
    and "unpack_type_dicts ns ds (g1, self1) = (res, g2, self2)"
    and "key_t d2 = key_t d1"
  shows "\<exists>T. datatypes_dict self1 (key_t d1) = Some T \<and>
             ty1 = (if key_p d1 then POINTER T else T) \<and>
             unpack_type_struct_dict ns d2 (g2, self2) =
               (Inr (if key_p d2 then POINTER T else T), g2, self2)"
proof -
  from struct_dict_result [OF assms(1)] obtain T where
    T: "datatypes_dict self1 (key_t d1) = Some T" "ty1 = (if key_p d1 then POINTER T else T)"
    by blast
  from unpack_type_dicts_extends [OF assms(2)] have "extends self1 self2" .
  with T(1) assms(3) have "datatypes_dict self2 (key_t d2) = Some T"
    by (simp add: extends_keeps)
  from struct_dict_memo [OF this] T show ?thesis by blast
qed

theorem struct_memoized_per_routine_witness:
  "unpack_type_struct_dict example_ns point_int (fst fresh_routine, snd fresh_routine)
     = (Inr (point_struct 0), fst point_routine, snd point_routine) \<and>
   unpack_type_dicts example_ns [int_dict, handle_dict] (fst point_routine, snd point_routine)
     = (fst (unpack_type_dicts example_ns [int_dict, handle_dict] point_routine),
        fst (snd (unpack_type_dicts example_ns [int_dict, handle_dict] point_routine)),
        snd (snd (unpack_type_dicts example_ns [int_dict, handle_dict] point_routine))) \<and>
   key_t point_double = key_t point_int \<and>
   fst (unpack_type_struct_dict example_ns point_double
      (snd (unpack_type_dicts example_ns [int_dict, handle_dict] point_routine)))
     = Inr (point_struct 0)"
proof -
  have h1: "unpack_type_struct_dict example_ns point_int (fst fresh_routine, snd fresh_routine)
     = (Inr (point_struct 0), fst point_routine, snd point_routine)"
    by (simp add: decoder_defs example_defs)
  have h2: "unpack_type_dicts example_ns [int_dict, handle_dict] (fst point_routine, snd point_routine)
     = (fst (unpack_type_dicts example_ns [int_dict, handle_dict] point_routine),
        fst (snd (unpack_type_dicts example_ns [int_dict, handle_dict] point_routine)),
        snd (snd (unpack_type_dicts example_ns [int_dict, handle_dict] point_routine)))"
    by simp
  have h3: "key_t point_double = key_t point_int"
    by (simp add: point_double_def point_int_def)
  from struct_memoized_per_routine [OF h1 h2 h3] h1 h2 h3 show ?thesis
    by (auto simp: point_int_def point_double_def point_struct_def)
qed

subsection \<open>Field order\<close>

text \<open>
  C6. When \<open>__unpack_type_struct_dict_generator__\<close> synthesizes a type for a description,
  the type's \<open>_fields_\<close> list has one entry for each field of the description, in the
  order of the description: the names are the names of \<open>_fields_\<close>, read in order, and the
  entry at each position carries the type decoded from the field at that position.
  (A description with a struct among its fields makes the generator raise; no type is
  synthesized then.)
\<close>

theorem generator_keeps_field_order:
  assumes "unpack_type_struct_dict_generator ns d (g, self) = (Inr u, g', self')"
  shows "\<exists>flds. datatypes_dict self' (key_t d) = Some (Structure (type_objects g) (key_t d) flds) \<and>
           map fst flds = map key_n (key_fields d) \<and>
           list_all2 (field_decoded ns) (key_fields d) flds"
proof -
  from generator_success [OF assms] obtain flds where
    flds: "list_all2 (field_decoded ns) (key_fields d) flds"
    and self': "self' = self\<lparr>datatypes_dict := (datatypes_dict self)
                      (key_t d \<mapsto> Structure (type_objects g) (key_t d) flds)\<rparr>"
    by blast
  from flds have "map fst flds = map key_n (key_fields d)"
    by (induction rule: list_all2_induct) (simp_all add: field_decoded_def)
  with flds self' show ?thesis by simp
qed

theorem generator_keeps_field_order_witness:
  "unpack_type_struct_dict_generator example_ns handle_dict (fst fresh_routine, snd fresh_routine)
   = (Inr (),
      fst (snd (unpack_type_struct_dict_generator example_ns handle_dict fresh_routine)),
      snd (snd (unpack_type_struct_dict_generator example_ns handle_dict fresh_routine)))
   \<and> datatypes_dict
        (snd (snd (unpack_type_struct_dict_generator example_ns handle_dict fresh_routine)))
        ''Handle''
     = Some (Structure 0 ''Handle'' [(''id'', Simple ''c_int''), (''pp'', Simple ''c_int'')])
   \<and> map key_n (key_fields handle_dict) = [''id'', ''pp'']"
proof -
  have h: "unpack_type_struct_dict_generator example_ns handle_dict
     (fst fresh_routine, snd fresh_routine)
   = (Inr (),
      fst (snd (unpack_type_struct_dict_generator example_ns handle_dict fresh_routine)),
      snd (snd (unpack_type_struct_dict_generator example_ns handle_dict fresh_routine)))"
    by (simp add: decoder_defs example_defs)
  from generator_keeps_field_order [OF h] obtain flds where
    "datatypes_dict
       (snd (snd (unpack_type_struct_dict_generator example_ns handle_dict fresh_routine)))
       (key_t handle_dict)
     = Some (Structure (type_objects (fst fresh_routine)) (key_t handle_dict) flds)"
    "map fst flds = map key_n (key_fields handle_dict)"
    "list_all2 (field_decoded example_ns) (key_fields handle_dict) flds"
    by blast
  moreover have "datatypes_dict
       (snd (snd (unpack_type_struct_dict_generator example_ns handle_dict fresh_routine)))
       ''Handle''
     = Some (Structure 0 ''Handle'' [(''id'', Simple ''c_int''), (''pp'', Simple ''c_int'')])"
    by (simp add: decoder_defs example_defs)
  moreover have "map key_n (key_fields handle_dict) = [''id'', ''pp'']"
    by (simp add: example_defs)
  ultimately show ?thesis using h by simp
qed


section \<open>The session client: lemmas\<close>

lemma quiet_step_refl [simp]: "quiet_step self self"
  by (simp add: quiet_step_def)

lemma quiet_step_trans: "quiet_step a b \<Longrightarrow> quiet_step b c \<Longrightarrow> quiet_step a c"
  by (simp add: quiet_step_def)

lemma loads_Nil [simp]: "loads nm [] = 0"
  by (simp add: loads_def)

lemma loads_Cons [simp]:
  "loads nm (eff # effs) =
     (case eff of RpcLoadLibrary nm' _ _ \<Rightarrow> if nm' = nm then 1 else 0 | _ \<Rightarrow> 0) + loads nm effs"
  by (simp add: loads_def split: effect.splits)

lemma loads_append [simp]: "loads nm (effs @ effs') = loads nm effs + loads nm effs'"
  by (simp add: loads_def)

lemma loads_snoc:
  "loads nm (effs @ [eff]) =
     loads nm effs + (case eff of RpcLoadLibrary nm' _ _ \<Rightarrow> if nm' = nm then 1 else 0 | _ \<Rightarrow> 0)"
  by simp

lemma deliver_fields [simp]:
  "dll_dict (deliver E self) = dll_dict self"
  "up (deliver E self) = up self"
  "stage (deliver E self) = stage self"
  "objects (deliver E self) = objects self"
  "p (deliver E self) = p self"
  "now (deliver E self) = now self"
  "trace (deliver E self) = trace self"
  by (simp_all add: deliver_def set_server_status_def split: option.splits)

lemma perform_fields [simp]:
  "dll_dict (perform E eff self) = dll_dict self"
  "up (perform E eff self) = up self"
  "stage (perform E eff self) = stage self"
  "objects (perform E eff self) = objects self"
  "p (perform E eff self) = p self"
  "now (perform E eff self) = now self + shown E (length (trace self)) eff"
  "trace (perform E eff self) = trace self @ [eff]"
  by (simp_all add: perform_def)

lemma perform_quiet:
  "(case eff of RpcLoadLibrary _ _ _ \<Rightarrow> False | _ \<Rightarrow> True) \<Longrightarrow>
     quiet_step self (perform E eff self)"
  by (cases eff) (simp_all add: quiet_step_def loads_snoc)

lemma log_out_quiet [simp]: "quiet_step self (log_out E fmt args self)"
  by (simp add: log_out_def perform_quiet)

lemma sleep_fields [simp]:
  "now (sleep E secs self) = now self + shown E (length (trace self)) (Sleep secs)"
  "trace (sleep E secs self) = trace self @ [Sleep secs]"
  "p (sleep E secs self) = p self"
  by (simp_all add: sleep_def)

lemma sleep_quiet [simp]: "quiet_step self (sleep E secs self)"
  by (simp add: sleep_def quiet_step_def loads_snoc)

lemma wait_loop_quiet: "quiet_step self (wait_loop E target_status deadline self)"
proof (induction E target_status deadline self rule: wait_loop.induct)
  case (1 E target_status deadline self)
  show ?case
  proof (cases "target_status \<noteq> server_up self")
    case False
    then show ?thesis by (simp add: wait_loop.simps)
  next
    case True
    show ?thesis
    proof (cases "deadline \<le> now (sleep E wait_for_seconds self)")
      case timed_out: True
      with True show ?thesis by (subst wait_loop.simps) simp
    next
      case False
      with True "1.IH" have "quiet_step (sleep E wait_for_seconds self)
          (wait_loop E target_status deadline (sleep E wait_for_seconds self))"
        by simp
      with quiet_step_trans [OF sleep_quiet] True False show ?thesis
        by (subst wait_loop.simps) auto
    qed
  qed
qed

lemma wait_quiet:
  "wait_for_server_status_change E target_status self = (res, self') \<Longrightarrow> quiet_step self self'"
  by (auto simp: wait_for_server_status_change_def Let_def split: if_splits
        intro: quiet_step_trans [OF log_out_quiet]
          quiet_step_trans [OF log_out_quiet quiet_step_trans [OF wait_loop_quiet log_out_quiet]])

lemma external_quiet:
  "(case eff of RpcLoadLibrary _ _ _ \<Rightarrow> False | _ \<Rightarrow> True) \<Longrightarrow>
     external E eff raises self = (res, self') \<Longrightarrow> quiet_step self self'"
  by (auto simp: external_def perform_quiet split: option.splits)

lemma prepare_quiet [simp]: "quiet_step self (prepare_python_command E self)"
  by (simp add: prepare_python_command_def Let_def quiet_step_def loads_snoc)

lemma and_thenE:
  assumes "and_then m k self = (res, self')"
  obtains (raised) e where "m self = (Inl e, self')" "res = Inl e"
  | (returned) x self1 where "m self = (Inr x, self1)" "k x self1 = (res, self')"
  using assms by (auto simp: and_then_def split: prod.splits sum.splits)

lemma init_stage_2_steps:
  assumes "init_stage_2 E self = (res, self')"
  shows "quiet_step (self\<lparr>stage := stage self'\<rparr>) self'
         \<and> (case res of Inr u \<Rightarrow> stage self' = 2 | Inl e \<Rightarrow> stage self' = stage self)"
proof -
  define s0 where "s0 = log_out E ''[session-client] STARTING (STAGE 2) ...'' [] self"
  have q0: "quiet_step self s0" by (simp add: s0_def)
  from assms [unfolded init_stage_2_def, folded s0_def] show ?thesis
  proof (cases rule: and_thenE)
    case (raised e)
    from external_quiet [OF _ raised(1)] q0 have "quiet_step self self'"
      using quiet_step_trans by simp
    with raised show ?thesis by (simp add: quiet_step_def)
  next
    case r1: (returned x1 s1)
    from external_quiet [OF _ r1(1)] q0 have q1: "quiet_step self s1"
      using quiet_step_trans by simp
    from r1(2) show ?thesis
    proof (cases rule: and_thenE)
      case (raised e)
      then show ?thesis by simp
    next
      case r2: (returned x2 s2)
      then have "s2 = prepare_python_command E s1" by simp
      with q1 have q2: "quiet_step self s2"
        using quiet_step_trans prepare_quiet by blast
      from r2(2) show ?thesis
      proof (cases rule: and_thenE)
        case (raised e)
        from external_quiet [OF _ raised(1)] q2 have "quiet_step self self'"
          using quiet_step_trans by simp
        with raised show ?thesis by (simp add: quiet_step_def)
      next
        case r3: (returned x3 s3)
        from external_quiet [OF _ r3(1)] q2 have q3: "quiet_step self s3"
          using quiet_step_trans by simp
        from r3(2) show ?thesis
        proof (cases rule: and_thenE)
          case (raised e)
          from wait_quiet [OF raised(1)] q3 have "quiet_step self self'"
            using quiet_step_trans by simp
          with raised show ?thesis by (simp add: quiet_step_def)
        next
          case r4: (returned x4 s4)
          from wait_quiet [OF r4(1)] q3 have q4: "quiet_step self s4"
            using quiet_step_trans by blast
          from r4(2) show ?thesis
          proof (cases rule: and_thenE)
            case (raised e)
            from external_quiet [OF _ raised(1) [unfolded start_rpc_client_def]] q4
            have "quiet_step self self'"
              using quiet_step_trans by simp
            with raised show ?thesis by (simp add: quiet_step_def)
          next
            case r5: (returned x5 s5)
            from external_quiet [OF _ r5(1) [unfolded start_rpc_client_def]] q4
            have q5: "quiet_step self s5"
              using quiet_step_trans by simp
            from r5(2) have "res = Inr ()"
              and "self' = log_out E ''[session-client] STARTED (STAGE 2).'' [] (s5\<lparr>stage := 2\<rparr>)"
              by simp_all
            with q5 show ?thesis
              by (simp add: quiet_step_def log_out_def loads_snoc)
          qed
        qed
      qed
    qed
  qed
qed


lemma enter_steps:
  assumes "(if stage self = 1 then init_stage_2 E self else (Inr (), self)) = (res, self')"
  shows "quiet_step (self\<lparr>stage := stage self'\<rparr>) self'"
    and "res = Inr u \<Longrightarrow> stage self' \<noteq> 1"
    and "res = Inl e \<Longrightarrow> stage self' = stage self"
    and "stage self \<noteq> 1 \<Longrightarrow> self' = self \<and> res = Inr ()"
proof -
  show "stage self \<noteq> 1 \<Longrightarrow> self' = self \<and> res = Inr ()"
    using assms by simp
  show "quiet_step (self\<lparr>stage := stage self'\<rparr>) self'"
    using assms init_stage_2_steps [of E self res self'] by (cases "stage self = 1") auto
  show "res = Inr u \<Longrightarrow> stage self' \<noteq> 1"
    using assms init_stage_2_steps [of E self res self'] by (cases "stage self = 1") auto
  show "res = Inl e \<Longrightarrow> stage self' = stage self"
    using assms init_stage_2_steps [of E self res self'] by (cases "stage self = 1") auto
qed

lemma load_library_cases:
  assumes "load_library E dll_name dll_type dll_param self = (res, self')"
  obtains (startup_failed) e where
      "(if stage self = 1 then init_stage_2 E self else (Inr (), self)) = (Inl e, self')"
      "res = Inl e"
  | (known) self1 handle where
      "(if stage self = 1 then init_stage_2 E self else (Inr (), self)) = (Inr (), self1)"
      "dll_dict self1 dll_name = Some handle" "res = Inr handle" "self' = self1"
  | (unknown_type) self1 where
      "(if stage self = 1 then init_stage_2 E self else (Inr (), self)) = (Inr (), self1)"
      "dll_dict self1 dll_name = None" "dll_type \<notin> set [''cdll'', ''windll'', ''oledll'']"
      "res = Inl (ValueError ''unknown dll type'')" "self' = self1"
  | (load_failed) self1 e where
      "(if stage self = 1 then init_stage_2 E self else (Inr (), self)) = (Inr (), self1)"
      "dll_dict self1 dll_name = None" "dll_type \<in> set [''cdll'', ''windll'', ''oledll'']"
      "res = Inl e" "dll_dict self' = dll_dict self1" "stage self' = stage self1"
      "objects self' = objects self1" "up self' = up self1"
      "loads dll_name (trace self') = Suc (loads dll_name (trace self1))"
  | (loaded) self1 hash_id where
      "(if stage self = 1 then init_stage_2 E self else (Inr (), self)) = (Inr (), self1)"
      "dll_dict self1 dll_name = None" "dll_type \<in> set [''cdll'', ''windll'', ''oledll'']"
      "res = Inr (DllClient (objects self1) dll_name dll_type hash_id)"
      "dll_dict self' = (dll_dict self1)(dll_name \<mapsto> DllClient (objects self1) dll_name dll_type hash_id)"
      "stage self' = stage self1" "objects self' = Suc (objects self1)" "up self' = up self1"
      "loads dll_name (trace self') = Suc (loads dll_name (trace self1))"
  using assms [unfolded load_library_def]
proof (cases rule: and_thenE)
  case (raised e)
  then show ?thesis by (rule startup_failed)
next
  case (returned x self1)
  show ?thesis
  proof (cases "dll_dict self1 dll_name")
    case (Some handle)
    with returned show ?thesis by (intro known [of self1 handle]) simp_all
  next
    case None
    show ?thesis
    proof (cases "dll_type \<in> set [''cdll'', ''windll'', ''oledll'']")
      case False
      with None returned show ?thesis by (intro unknown_type [of self1]) simp_all
    next
      case True
      define s2 where "s2 = log_out E
         ''[session-client] Attaching to DLL file \"%s\" with calling convention \"%s\" ...''
         [Str dll_name, Str dll_type] self1"
      obtain r3 s3 where rpc: "rpc_client_load_library E dll_name dll_type (fix_dll_param dll_param) s2 = (r3, s3)"
        by (metis surj_pair)
      then have s3: "s3 = perform E (RpcLoadLibrary dll_name dll_type (fix_dll_param dll_param)) s2"
        by (simp add: rpc_client_load_library_def)
      show ?thesis
      proof (cases r3)
        case (Inl e)
        with returned None True rpc s3 show ?thesis
          by (intro load_failed [of self1 e])
            (auto simp: s2_def log_out_def split: if_splits)
      next
        case (Inr hash_id)
        with returned None True rpc s3 show ?thesis
          by (intro loaded [of self1 hash_id])
            (auto simp: s2_def log_out_def Let_def split: if_splits)
      qed
    qed
  qed
qed


lemma session_inv_load_library:
  assumes "load_library E dll_name dll_type dll_param self = (res, self')"
    and "session_inv self"
  shows "session_inv self'"
  using assms(1)
proof (cases rule: load_library_cases)
  case (startup_failed e)
  from enter_steps(1,3) [OF startup_failed(1)] assms(2) show ?thesis
    by (auto simp: session_inv_def quiet_step_def)
next
  case (known self1 handle)
  from enter_steps(2) [OF known(1)] known show ?thesis by (simp add: session_inv_def)
next
  case (unknown_type self1)
  from enter_steps(2) [OF unknown_type(1)] unknown_type show ?thesis by (simp add: session_inv_def)
next
  case (load_failed self1 e)
  from enter_steps(2) [OF load_failed(1)] load_failed show ?thesis by (simp add: session_inv_def)
next
  case (loaded self1 hash_id)
  from enter_steps(2) [OF loaded(1)] loaded show ?thesis by (simp add: session_inv_def)
qed

lemma rpc_client_terminate_quiet:
  assumes "rpc_client_terminate E self = (res, self')"
  shows "quiet_step self self'"
proof -
  obtain r1 s1 where ext: "external E RpcTerminate (rpc_terminate E) self = (r1, s1)"
    by (metis surj_pair)
  from external_quiet [OF _ ext] have q1: "quiet_step self s1" by simp
  have "self' = s1 \<or> self' = log_out E ''[session-client] Remote socket closed.'' [] s1"
    using assms ext by (auto simp: rpc_client_terminate_def split: sum.splits error.splits)
  with q1 show ?thesis
    using quiet_step_trans [OF q1 log_out_quiet] by auto
qed

lemma terminate_stage_2_quiet:
  assumes "and_then (rpc_client_terminate E) (\<lambda>_.
              and_then (wait_for_server_status_change E False) (\<lambda>_ self.
                (Inr (), perform E InterpreterTerminate self))) self = (res, self')"
  shows "quiet_step self self'"
  using assms
proof (cases rule: and_thenE)
  case (raised e)
  then show ?thesis by (simp add: rpc_client_terminate_quiet)
next
  case r1: (returned x s1)
  from rpc_client_terminate_quiet [OF r1(1)] have q1: "quiet_step self s1" .
  from r1(2) show ?thesis
  proof (cases rule: and_thenE)
    case (raised e)
    from quiet_step_trans [OF q1 wait_quiet [OF raised(1)]] show ?thesis .
  next
    case r2: (returned y s2)
    from quiet_step_trans [OF q1 wait_quiet [OF r2(1)]] have "quiet_step self s2" .
    moreover from r2(2) have "self' = perform E InterpreterTerminate s2" by simp
    ultimately show ?thesis
      using quiet_step_trans perform_quiet [of InterpreterTerminate s2 E] by simp
  qed
qed

lemma terminate_steps:
  assumes "terminate E self = (res, self')"
  shows "quiet_step (self\<lparr>up := up self'\<rparr>) self'"
    and "res = Inr u \<Longrightarrow> \<not> up self'"
    and "res = Inl e \<Longrightarrow> up self' = up self"
proof -
  have "quiet_step (self\<lparr>up := up self'\<rparr>) self' \<and> (case res of Inr u \<Rightarrow> \<not> up self' | Inl e \<Rightarrow> up self' = up self)"
  proof (cases "up self")
    case False
    with assms show ?thesis by (auto simp: terminate_def quiet_step_def)
  next
    case True
    define s0 where "s0 = log_out E ''[session-client] TERMINATING ...'' [] self"
    have q0: "quiet_step self s0" by (simp add: s0_def)
    from assms True have "and_then
            (\<lambda>self. if stage self = 2 then
                and_then (rpc_client_terminate E) (\<lambda>_.
                and_then (wait_for_server_status_change E False) (\<lambda>_ self.
                  (Inr (), perform E InterpreterTerminate self))) self
              else (Inr (), self))
            (\<lambda>_ self.
               (Inr (),
                (perform E LogTerminate
                   (log_out E ''[session-client] TERMINATED.'' []
                      (perform E RpcServerTerminate self)))\<lparr>up := False\<rparr>))
            s0 = (res, self')"
      by (simp add: terminate_def s0_def)
    then show ?thesis
    proof (cases rule: and_thenE)
      case (raised e)
      then have "quiet_step s0 self'"
        by (cases "stage s0 = 2") (simp_all add: terminate_stage_2_quiet)
      with q0 raised(2) show ?thesis by (simp add: quiet_step_def)
    next
      case (returned x s1)
      then have "quiet_step s0 s1"
        by (cases "stage s0 = 2") (auto simp: terminate_stage_2_quiet)
      with q0 returned(2) show ?thesis
        by (auto simp: quiet_step_def log_out_def)
    qed
  qed
  then show "quiet_step (self\<lparr>up := up self'\<rparr>) self'"
    and "res = Inr u \<Longrightarrow> \<not> up self'"
    and "res = Inl e \<Longrightarrow> up self' = up self"
    by simp_all
qed

lemma session_inv_terminate:
  assumes "terminate E self = (res, self')" and "session_inv self"
  shows "session_inv self'"
  using terminate_steps(1) [OF assms(1)] assms(2) by (simp add: session_inv_def quiet_step_def)

lemma session_inv_init_stage_1:
  "session_inv (snd (init_stage_1 E parameter force_stage_2 clock))"
proof (cases force_stage_2)
  case False
  then show ?thesis
    by (simp add: init_stage_1_def Let_def session_inv_def log_out_def)
next
  case True
  define self4 where "self4 = snd (init_stage_1 E parameter False clock)"
  have empty: "dll_dict self4 = Map.empty"
    by (simp add: self4_def init_stage_1_def Let_def log_out_def)
  from True have "init_stage_1 E parameter force_stage_2 clock = init_stage_2 E self4"
    by (simp add: self4_def init_stage_1_def Let_def)
  moreover obtain res self' where run: "init_stage_2 E self4 = (res, self')"
    by (metis surj_pair)
  moreover from init_stage_2_steps [OF run] empty have "dll_dict self' = Map.empty"
    by (simp add: quiet_step_def)
  ultimately show ?thesis by (simp add: session_inv_def)
qed

lemmas session_defs =
  init_stage_1_def init_stage_2_def load_library_def terminate_def
  wait_for_server_status_change_def prepare_python_command_def start_rpc_client_def
  rpc_client_load_library_def rpc_client_terminate_def fix_dll_param_def setdefault_def
  is_OSError_def and_then_def external_def log_out_def perform_def shown_def deliver_def
  set_server_status_def sleep_def wait_for_seconds_def CONFIG_DICT_def STATUS_DICT_def Let_def

lemmas session_example_defs =
  up_env_def down_env_def quiet_env_def example_config_def fresh_session_def
  started_session_def loaded_session_def
  terminated_session_def

lemma fresh_session_facts:
  "stage fresh_session = 1" "dll_dict fresh_session = Map.empty" "up fresh_session"
  "objects fresh_session = 0" "\<not> server_up fresh_session"
  by (simp_all add: session_defs session_example_defs)


lemma loaded_session_facts:
  "stage loaded_session = 2" "dll_dict loaded_session ''a.dll'' = Some (DllClient 0 ''a.dll'' ''cdll'' ''4f2a'')"
  "dll_dict loaded_session ''b.dll'' = None"
  by (simp_all add: session_defs session_example_defs)


lemma started_session_facts:
  "stage started_session = 2" "dll_dict started_session = Map.empty" "up started_session"
  "objects started_session = 0" "server_up started_session"
  by (simp_all add: session_defs session_example_defs)


lemma terminate_started:
  "terminate down_env started_session = (Inr (), terminated_session)"
  by (simp add: session_defs session_example_defs)

lemma sleeps_simps [simp]:
  "sleeps [] = []"
  "sleeps (effs @ effs') = sleeps effs @ sleeps effs'"
  "sleeps (LogOut fmt args # effs) = sleeps effs"
  "sleeps (Sleep secs # effs) = secs # sleeps effs"
  by (simp_all add: sleeps_def List.map_filter_def)

lemma sleeps_replicate [simp]: "sleeps (replicate n (Sleep secs)) = replicate n secs"
  by (induction n) simp_all

lemma polled_0 [simp]:
  "polled E target_status self 0 =
     log_out E ''[session-client] Waiting for session-server to be %s ...''
       [Str (STATUS_DICT target_status)] self"
  by (simp add: polled_def)

lemma polled_Suc:
  "polled E target_status self (Suc n) = sleep E wait_for_seconds (polled E target_status self n)"
  by (simp add: polled_def)

lemma sleeps_Cons:
  "sleeps (eff # effs) = (case eff of Sleep secs \<Rightarrow> secs # sleeps effs | _ \<Rightarrow> sleeps effs)"
  by (cases eff) (simp_all add: sleeps_def List.map_filter_def)

lemma sleeps_after:
  "sleeps (trace (((sleep E wait_for_seconds) ^^ n) self)) = sleeps (trace self) @ replicate n (1 / 100)"
  by (induction n) (simp_all add: wait_for_seconds_def replicate_append_same)

lemma wait_loop_first_exit:
  "\<exists>n. wait_loop E target_status deadline self = ((sleep E wait_for_seconds) ^^ n) self
     \<and> (\<forall>m<n. server_up (((sleep E wait_for_seconds) ^^ m) self) \<noteq> target_status
              \<and> (0 < m \<longrightarrow> now (((sleep E wait_for_seconds) ^^ m) self) < deadline))
     \<and> (server_up (((sleep E wait_for_seconds) ^^ n) self) = target_status
          \<or> 0 < n \<and> deadline \<le> now (((sleep E wait_for_seconds) ^^ n) self))"
proof (induction E target_status deadline self rule: wait_loop.induct)
  case (1 E target_status deadline self)
  let ?f = "sleep E wait_for_seconds"
  show ?case
  proof (cases "target_status \<noteq> server_up self")
    case False
    then have "wait_loop E target_status deadline self = self"
      by (subst wait_loop.simps) simp
    with False show ?thesis by (intro exI [of _ 0]) simp
  next
    case True
    show ?thesis
    proof (cases "deadline \<le> now (?f self)")
      case timed_out: True
      with True have "wait_loop E target_status deadline self = ?f self"
        by (subst wait_loop.simps) simp
      with True timed_out show ?thesis by (intro exI [of _ 1]) auto
    next
      case False
      with True have eq: "wait_loop E target_status deadline self
          = wait_loop E target_status deadline (?f self)"
        by (subst wait_loop.simps) simp
      from "1.IH" [OF True False] obtain k where
        k: "wait_loop E target_status deadline (?f self) = (?f ^^ k) (?f self)"
           "\<forall>m<k. server_up ((?f ^^ m) (?f self)) \<noteq> target_status
              \<and> (0 < m \<longrightarrow> now ((?f ^^ m) (?f self)) < deadline)"
           "server_up ((?f ^^ k) (?f self)) = target_status
              \<or> 0 < k \<and> deadline \<le> now ((?f ^^ k) (?f self))"
        by blast
      have shift: "(?f ^^ m) (?f self) = (?f ^^ Suc m) self" for m
        by (simp add: funpow_swap1)
      have before: "server_up ((?f ^^ m) self) \<noteq> target_status
              \<and> (0 < m \<longrightarrow> now ((?f ^^ m) self) < deadline)" if "m < Suc k" for m
      proof (cases m)
        case 0
        with True show ?thesis by auto
      next
        case (Suc j)
        with that have "j < k" by simp
        with k(2) have "server_up ((?f ^^ j) (?f self)) \<noteq> target_status"
          and later: "0 < j \<longrightarrow> now ((?f ^^ j) (?f self)) < deadline" by simp_all
        moreover have "now ((?f ^^ j) (?f self)) < deadline"
        proof (cases j)
          case 0
          with False show ?thesis by simp
        next
          case (Suc i)
          with later show ?thesis by simp
        qed
        ultimately show ?thesis unfolding Suc shift by simp
      qed
      from k(3) have "server_up ((?f ^^ Suc k) self) = target_status
          \<or> 0 < Suc k \<and> deadline \<le> now ((?f ^^ Suc k) self)"
        unfolding shift by auto
      with k(1) before show ?thesis
        unfolding eq shift by (intro exI [of _ "Suc k"]) blast
    qed
  qed
qed


lemmas wait_example_defs = impatient_config_def impatient_session_def late_env_def

section \<open>The session client: what the specification says of it\<close>

subsection \<open>Loading a library\<close>



theorem load_library_unknown_convention_counterexample:
  "dll_dict fresh_session ''a.dll'' = None \<and>
   ''stdcall'' \<notin> set [''cdll'', ''windll'', ''oledll''] \<and>
   fst (load_library quiet_env ''a.dll'' ''stdcall'' [] fresh_session)
     = Inl (TimeoutError ''session server did not appear'') \<and>
   stage (snd (load_library quiet_env ''a.dll'' ''stdcall'' [] fresh_session)) = 1"
  by (simp add: session_defs session_example_defs wait_loop.simps)

text \<open>
  C7, as the code has it. \<open>load_library\<close> first brings a session in stage 1 to stage 2,
  and only then looks at the table and at the convention. For a name that is not in the
  library table and a convention other than \<open>cdll\<close>, \<open>windll\<close> and \<open>oledll\<close>, the call
  fails, the table is what it was, and nothing has been sent to the guest for that name.
  When the session is past stage 1 afterwards (it was in stage 2, or the guest has just
  been started), the error is \<open>ValueError("unknown dll type")\<close>, the code's
  \<open>unknown_convention\<close>; a session that was in stage 2 is left exactly as it was. When the
  session is still in stage 1 afterwards, starting the guest has failed, and the error and
  the session are the ones \<open>__init_stage_2__\<close> left.
\<close>

theorem load_library_unknown_convention:
  assumes "dll_dict self dll_name = None"
    and "dll_type \<notin> {''cdll'', ''windll'', ''oledll''}"
    and "load_library E dll_name dll_type dll_param self = (res, self')"
  shows "(\<exists>e. res = Inl e) \<and> dll_dict self' = dll_dict self
       \<and> loads dll_name (trace self') = loads dll_name (trace self)
       \<and> (stage self' \<noteq> 1 \<longrightarrow> res = Inl (ValueError ''unknown dll type''))
       \<and> (stage self \<noteq> 1 \<longrightarrow> self' = self)
       \<and> (stage self' = 1 \<longrightarrow>
            stage self = 1 \<and> (\<exists>e. res = Inl e \<and> init_stage_2 E self = (Inl e, self')))"
  using assms(3)
proof (cases rule: load_library_cases)
  case (startup_failed e)
  have "stage self = 1"
  proof (rule ccontr)
    assume "stage self \<noteq> 1"
    with startup_failed(1) show False by simp
  qed
  with enter_steps(1,3,4) [OF startup_failed(1)] startup_failed show ?thesis
    by (auto simp: quiet_step_def)
next
  case (known s1 h)
  from enter_steps(1) [OF known(1)] known assms(1) show ?thesis by (simp add: quiet_step_def)
next
  case (unknown_type s1)
  from enter_steps(1,2,4) [OF unknown_type(1)] unknown_type show ?thesis
    by (auto simp: quiet_step_def)
next
  case (load_failed s1 e)
  with assms(2) show ?thesis by simp
next
  case (loaded s1 hash_id)
  with assms(2) show ?thesis by simp
qed

theorem load_library_unknown_convention_witness:
  "dll_dict fresh_session ''a.dll'' = None \<and>
   ''stdcall'' \<notin> {''cdll'', ''windll'', ''oledll''} \<and>
   fst (load_library up_env ''a.dll'' ''stdcall'' [] fresh_session)
     = Inl (ValueError ''unknown dll type'') \<and>
   dll_dict (snd (load_library up_env ''a.dll'' ''stdcall'' [] fresh_session))
     = dll_dict fresh_session \<and>
   loads ''a.dll'' (trace (snd (load_library up_env ''a.dll'' ''stdcall'' [] fresh_session)))
     = loads ''a.dll'' (trace fresh_session)"
proof -
  have h1: "dll_dict fresh_session ''a.dll'' = None"
    by (simp add: fresh_session_facts)
  have h2: "''stdcall'' \<notin> {''cdll'', ''windll'', ''oledll''}"
    by simp
  have h3: "load_library up_env ''a.dll'' ''stdcall'' [] fresh_session
     = (fst (load_library up_env ''a.dll'' ''stdcall'' [] fresh_session),
        snd (load_library up_env ''a.dll'' ''stdcall'' [] fresh_session))"
    by simp
  have "stage (snd (load_library up_env ''a.dll'' ''stdcall'' [] fresh_session)) = 2"
    by (simp add: session_defs session_example_defs)
  with load_library_unknown_convention [OF h1 h2 h3] h1 h2 show ?thesis
    by simp
qed

text \<open>
  C10. When the name is in the library table, \<open>load_library\<close> returns the handle found
  there and leaves the session as it is, for every convention (also one outside \<open>cdll\<close>,
  \<open>windll\<close>, \<open>oledll\<close>) and every parameter dictionary: neither is looked at. The
  session is one that \<open>__init__\<close>, \<open>load_library\<close> and \<open>terminate\<close> can have produced
  (\<open>session_inv\<close>: a table with an entry means the guest has been started).
\<close>

theorem load_library_known_name_skips_validation:
  assumes "session_inv self" and "dll_dict self dll_name = Some handle"
  shows "load_library E dll_name dll_type dll_param self = (Inr handle, self)"
  using assms by (auto simp: session_inv_def load_library_def and_then_def)

theorem load_library_known_name_skips_validation_witness:
  "session_inv loaded_session \<and>
   dll_dict loaded_session ''a.dll'' = Some (DllClient 0 ''a.dll'' ''cdll'' ''4f2a'') \<and>
   load_library quiet_env ''a.dll'' ''stdcall'' [(''mode'', PyStr ''x'')] loaded_session
     = (Inr (DllClient 0 ''a.dll'' ''cdll'' ''4f2a''), loaded_session)"
proof -
  have h1: "session_inv loaded_session"
    by (simp add: session_inv_def loaded_session_facts)
  have h2: "dll_dict loaded_session ''a.dll'' = Some (DllClient 0 ''a.dll'' ''cdll'' ''4f2a'')"
    by (simp add: loaded_session_facts)
  from load_library_known_name_skips_validation [OF h1 h2] h1 h2 show ?thesis
    by simp
qed

subsection \<open>Shutting down\<close>

text \<open>
  C9. After a call of \<open>terminate\<close> that returns, the session's \<open>up\<close> flag is false, and
  \<open>terminate\<close> called on the session it left returns at once, whatever the surroundings
  do: the session is unchanged, and no effect is added to those already performed (no guest
  call, no teardown of interpreter, reverse endpoint or log, no log line). The session being
  unchanged, the same holds for every call after that.
\<close>

theorem terminate_idempotent:
  assumes "terminate E self = (Inr u, self1)"
  shows "\<not> up self1 \<and> terminate E' self1 = (Inr (), self1)
       \<and> trace (snd (terminate E' self1)) = trace self1"
proof -
  from terminate_steps(2) [OF assms] have "\<not> up self1" by simp
  then show ?thesis by (simp add: terminate_def)
qed

theorem terminate_idempotent_witness:
  "terminate down_env started_session = (Inr (), terminated_session) \<and>
   up started_session \<and> \<not> up terminated_session \<and>
   terminate up_env terminated_session = (Inr (), terminated_session) \<and>
   trace (snd (terminate up_env terminated_session)) = trace terminated_session"
  using terminate_idempotent [OF terminate_started, of up_env] terminate_started
    started_session_facts(3)
  by simp

subsection \<open>Waiting for the guest\<close>

theorem wait_timeout_counterexample:
  "server_up impatient_session \<and> CONFIG_DICT False (p impatient_session) = 0 \<and>
   server_up (polled late_env False impatient_session 0) \<and>
   wait_deadline late_env False impatient_session \<le> now (polled late_env False impatient_session 0) \<and>
   fst (wait_for_server_status_change late_env False impatient_session) = Inr ()"
  by (simp add: session_defs session_example_defs wait_example_defs wait_loop.simps
        polled_def wait_deadline_def)

text \<open>
  C8, as the code has it. If the status is already the target,
  \<open>__wait_for_server_status_change__\<close> returns at once and the session is unchanged: no
  sleep, no log line. Otherwise it writes a log line and polls: it sleeps 0.01 seconds and
  then looks at the clock and at the status, again and again. It stops at the first poll
  \<open>n\<close> at which the status is the target or, one sleep at least having been made, the clock
  has reached the deadline \<open>started_waiting_at + timeout\<close> (\<open>timeout_start\<close> for target up,
  \<open>timeout_stop\<close> for target down): at no earlier poll was the status the target, or the
  deadline reached after a sleep. It returns normally when the status is the target at that
  last poll, and raises TimeoutError otherwise; it ends with one more log line, and the
  sleeps it has added are \<open>n\<close> sleeps of 1/100. So no timeout error comes without a sleep,
  and a status that reaches the target after the timeout has passed but by the last poll
  still ends the wait without error.
\<close>

theorem wait_polls_until_timeout:
  assumes "wait_for_server_status_change E target_status self = (res, self')"
  shows "(target_status = server_up self \<longrightarrow> res = Inr () \<and> self' = self)
   \<and> (target_status \<noteq> server_up self \<longrightarrow>
       (\<exists>n. (\<forall>m<n. server_up (polled E target_status self m) \<noteq> target_status
                    \<and> (0 < m \<longrightarrow> now (polled E target_status self m)
                                   < wait_deadline E target_status self))
            \<and> (server_up (polled E target_status self n) = target_status
                \<or> 0 < n \<and> wait_deadline E target_status self
                             \<le> now (polled E target_status self n))
            \<and> res = (if server_up (polled E target_status self n) = target_status then Inr ()
                     else Inl (TimeoutError (timeout_message target_status)))
            \<and> (\<exists>fmt args. self' = log_out E fmt args (polled E target_status self n))
            \<and> sleeps (trace self') = sleeps (trace self) @ replicate n (1 / 100)))"
proof (cases "target_status = server_up self")
  case True
  with assms show ?thesis by (simp add: wait_for_server_status_change_def)
next
  case False
  let ?s1 = "polled E target_status self 0"
  let ?d = "wait_deadline E target_status self"
  have p1: "p ?s1 = p self" by (simp add: log_out_def)
  from wait_loop_first_exit [of E target_status ?d ?s1] obtain n where
    n: "wait_loop E target_status ?d ?s1 = ((sleep E wait_for_seconds) ^^ n) ?s1"
       "\<forall>m<n. server_up (((sleep E wait_for_seconds) ^^ m) ?s1) \<noteq> target_status
              \<and> (0 < m \<longrightarrow> now (((sleep E wait_for_seconds) ^^ m) ?s1) < ?d)"
       "server_up (((sleep E wait_for_seconds) ^^ n) ?s1) = target_status
          \<or> 0 < n \<and> ?d \<le> now (((sleep E wait_for_seconds) ^^ n) ?s1)"
    by blast
  have pol: "((sleep E wait_for_seconds) ^^ m) ?s1 = polled E target_status self m" for m
    by (simp add: polled_def)
  have loop: "wait_loop E target_status
        (float_add E (now ?s1) (CONFIG_DICT target_status (p ?s1))) ?s1
      = polled E target_status self n"
    using n(1) by (simp only: pol wait_deadline_def p1)
  from assms False loop
  have res: "res = (if server_up (polled E target_status self n) = target_status then Inr ()
                     else Inl (TimeoutError (timeout_message target_status)))"
    and last: "\<exists>fmt args. self' = log_out E fmt args (polled E target_status self n)"
    by (auto simp: wait_for_server_status_change_def Let_def timeout_message_def
          split: if_splits)
  from last obtain fmt args where "self' = log_out E fmt args (polled E target_status self n)"
    by blast
  then have "sleeps (trace self') = sleeps (trace self) @ replicate n (1 / 100)"
    by (simp add: log_out_def polled_def sleeps_after)
  with n(2,3) res last False show ?thesis
    unfolding pol by blast
qed

theorem wait_polls_until_timeout_witness:
  "server_up started_session \<and>
   wait_for_server_status_change quiet_env True started_session = (Inr (), started_session) \<and>
   fst (wait_for_server_status_change quiet_env False started_session)
     = Inl (TimeoutError ''session server could not be stopped'') \<and>
   sleeps (trace (snd (wait_for_server_status_change quiet_env False started_session)))
     = sleeps (trace started_session) @ [1 / 100, 1 / 100, 1 / 100]"
proof -
  let ?up = "wait_for_server_status_change quiet_env True started_session"
  let ?down = "wait_for_server_status_change quiet_env False started_session"
  have up: "server_up started_session" by (rule started_session_facts)
  have h_up: "?up = (fst ?up, snd ?up)" by simp
  from wait_polls_until_timeout [OF h_up] up have 1: "?up = (Inr (), started_session)"
    by (metis prod.collapse)
  have down: "fst ?down = Inl (TimeoutError ''session server could not be stopped'')"
    "sleeps (trace (snd ?down)) = sleeps (trace started_session) @ [1 / 100, 1 / 100, 1 / 100]"
    by (simp_all add: session_defs session_example_defs wait_loop.simps sleeps_Cons)
  with up 1 show ?thesis by simp
qed


end
